theory Spec2Isabelle
  imports
    Complex_Main
    "HOL-Library.Finite_Map"
    "HOL-Library.Char_ord"
    "HOL-Library.List_Lexorder"
begin

section \<open>Data model\<close>

subsection \<open>Decimals and dates\<close>

text \<open>
  Modelled from the spec: amounts are exact decimals (section 3, "Amount"). The decimal
  type of the sources is the arbitrary-precision \<^verbatim>\<open>decimal.Decimal\<close> of an external
  library, whose \<^verbatim>\<open>Add\<close>, \<^verbatim>\<open>Sub\<close> and \<^verbatim>\<open>Neg\<close> are exact. A decimal is modelled by
  the rational number it denotes; the zero value of the Go type denotes \<open>0\<close>.
\<close>

type_synonym decimal = rat

definition IsNegative :: "decimal \<Rightarrow> bool" where
  "IsNegative d = (d < 0)"

definition Neg :: "decimal \<Rightarrow> decimal" where
  "Neg d = - d"

definition Add :: "decimal \<Rightarrow> decimal \<Rightarrow> decimal" where
  "Add d d2 = d + d2"

definition Sub :: "decimal \<Rightarrow> decimal \<Rightarrow> decimal" where
  "Sub d d2 = d - d2"

definition NewFromInt :: "int \<Rightarrow> decimal" where
  "NewFromInt n = of_int n"

text \<open>Truncation of a rational towards zero, as the integer division of big integers does.\<close>

definition trunc :: "rat \<Rightarrow> int" where
  "trunc x = (if x < 0 then - \<lfloor>- x\<rfloor> else \<lfloor>x\<rfloor>)"

text \<open>
  Modelled from the spec: \<^verbatim>\<open>A/N = q rem r\<close>, exact decimal division with remainder
  (section 4.C.1). \<^verbatim>\<open>d.QuoRem(d2, precision)\<close> of the decimal library returns the
  quotient truncated to \<open>precision\<close> decimal places and the remainder \<open>d - d2 * q\<close>;
  it panics when \<open>d2\<close> is zero, which is the value \<open>None\<close> here.
\<close>

definition QuoRem :: "decimal \<Rightarrow> decimal \<Rightarrow> nat \<Rightarrow> (decimal \<times> decimal) option" where
  "QuoRem d d2 precision =
     (if d2 = 0 then None
      else let q = of_int (trunc (d * 10 ^ precision / d2)) / 10 ^ precision
           in Some (q, d - d2 * q))"

text \<open>
  A \<^verbatim>\<open>time.Time\<close> holding a calendar date is the number of days since the zero value of
  the type (January 1 of year 1); \<^verbatim>\<open>Before\<close> and \<^verbatim>\<open>After\<close> are \<open><\<close> and \<open>>\<close>.
\<close>

type_synonym time = int

definition time_zero :: time where
  "time_zero = 0"

subsection \<open>Accounts and commodities\<close>

text \<open>
  Modelled from the spec: an account is an interned object identified by its name, with
  a type drawn from Assets, Liabilities, Equity, Income, Expenses (section 3); the
  declarations of \<^verbatim>\<open>Account\<close>, \<^verbatim>\<open>AccountType\<close> and \<^verbatim>\<open>Commodity\<close> are not among the
  sources. \<open>AccountType_int\<close> numbers the constants in the order of their declaration,
  which is the order in which the integer type \<^verbatim>\<open>AccountType\<close> compares them.
\<close>

datatype AccountType = ASSETS | LIABILITIES | EQUITY | INCOME | EXPENSES

fun AccountType_int :: "AccountType \<Rightarrow> nat" where
  "AccountType_int ASSETS = 0"
| "AccountType_int LIABILITIES = 1"
| "AccountType_int EQUITY = 2"
| "AccountType_int INCOME = 3"
| "AccountType_int EXPENSES = 4"

record Account =
  Type :: AccountType
  String :: string

record Commodity =
  String :: string

text \<open>
  Interning makes pointer equality of accounts and of commodities the equality of their
  names; an account or commodity pointer is modelled by the value it points to.
\<close>

subsection \<open>Directives\<close>

text \<open>
  Modelled from the spec: a source range is a path with a start and an end position,
  each a line and a column (section 6); the scanner's \<^verbatim>\<open>Location\<close> is not among the
  sources.
\<close>

record Location =
  Line :: int
  Col :: int

record Range =
  Path :: string
  Start :: Location
  End :: Location

text \<open>A lot is only ever attached by the parser; postings built here carry none.\<close>

typedecl Lot

record Posting =
  Amount :: decimal
  Value :: decimal
  Credit :: Account
  Debit :: Account
  Commodity :: Commodity
  Lot :: "Lot option"

record Transaction =
  Range :: Range
  Date :: time
  Description :: string
  Tags :: "string list"
  Postings :: "Posting list"

record Open =
  Range :: Range
  Date :: time
  Account :: Account

record Close =
  Range :: Range
  Date :: time
  Account :: Account

record Price =
  Range :: Range
  Date :: time
  Commodity :: Commodity
  Target :: Commodity
  Price :: decimal

record Assertion =
  Range :: Range
  Date :: time
  Account :: Account
  Amount :: decimal
  Commodity :: Commodity

record ValueDirective =
  Range :: Range
  Date :: time
  Account :: Account
  Amount :: decimal
  Commodity :: Commodity

section \<open>Postings\<close>

text \<open>
  \<^verbatim>\<open>NewPosting\<close>: a negative amount is inverted and the accounts are reversed. The fields
  \<^verbatim>\<open>Value\<close> and \<^verbatim>\<open>Lot\<close> keep their zero values.
\<close>

definition NewPosting :: "Account \<Rightarrow> Account \<Rightarrow> Commodity \<Rightarrow> decimal \<Rightarrow> Posting" where
  "NewPosting crAccount drAccount commodity amt =
     (if IsNegative amt
      then \<lparr>Posting.Amount = Neg amt, Value = 0, Credit = drAccount, Debit = crAccount,
            Commodity = commodity, Lot = None\<rparr>
      else \<lparr>Posting.Amount = amt, Value = 0, Credit = crAccount, Debit = drAccount,
            Commodity = commodity, Lot = None\<rparr>)"

section \<open>The balance\<close>

record CommodityAccount =
  Account :: Account
  Commodity :: Commodity

type_synonym Amounts = "(CommodityAccount, decimal) fmap"

text \<open>Reading a Go map at a key it does not hold gives the zero value of the element type.\<close>

definition read :: "Amounts \<Rightarrow> CommodityAccount \<Rightarrow> decimal" where
  "read m pos = (case fmlookup m pos of None \<Rightarrow> 0 | Some v \<Rightarrow> v)"

text \<open>
  The table of open accounts, \<^verbatim>\<open>Accounts\<close>, and its method \<^verbatim>\<open>IsOpen\<close> are not among the
  sources: the table is taken as the predicate that \<^verbatim>\<open>IsOpen\<close> computes from it.
\<close>

type_synonym Accounts = "Account \<Rightarrow> bool"

definition IsOpen :: "Accounts \<Rightarrow> Account \<Rightarrow> bool" where
  "IsOpen oa a = oa a"

text \<open>
  The balance, without its registry context and its table of normalized prices, which
  booking neither reads nor writes.
\<close>

record Balance =
  Date :: time
  Amounts :: Amounts
  Values :: Amounts
  Accounts :: Accounts
  Valuation :: "Commodity option"

record Error =
  directive :: Transaction
  msg :: string

text \<open>\<^verbatim>\<open>Balance.Amount\<close>\<close>

definition Amount :: "Balance \<Rightarrow> Account \<Rightarrow> Commodity \<Rightarrow> decimal" where
  "Amount b a c = read (Amounts b) \<lparr>Account = a, Commodity = c\<rparr>"

text \<open>\<^verbatim>\<open>Balance.Book\<close> mutates the receiver; the model returns the balance after the call.\<close>

definition Book :: "Balance \<Rightarrow> Account \<Rightarrow> Account \<Rightarrow> decimal \<Rightarrow> Commodity \<Rightarrow> Balance" where
  "Book b cr dr a c =
     (let crPos = \<lparr>Account = cr, Commodity = c\<rparr>;
          drPos = \<lparr>Account = dr, Commodity = c\<rparr>;
          b1 = b\<lparr>Amounts := fmupd crPos (Sub (read (Amounts b) crPos) a) (Amounts b)\<rparr>
      in b1\<lparr>Amounts := fmupd drPos (Add (read (Amounts b1) drPos) a) (Amounts b1)\<rparr>)"

text \<open>
  \<^verbatim>\<open>Balance.BookAmount\<close>: the loop over the postings of the transaction. The result is
  the returned error (\<open>None\<close> for \<^verbatim>\<open>nil\<close>) and the balance as the call leaves it.
\<close>

fun BookAmount_loop :: "Balance \<Rightarrow> Transaction \<Rightarrow> Posting list \<Rightarrow> Error option \<times> Balance" where
  "BookAmount_loop b t [] = (None, b)"
| "BookAmount_loop b t (posting # rest) =
     (if \<not> IsOpen (Accounts b) (Credit posting)
      then (Some \<lparr>directive = t,
                  msg = ''credit account '' @ Account.String (Credit posting) @ '' is not open''\<rparr>, b)
      else if \<not> IsOpen (Accounts b) (Debit posting)
      then (Some \<lparr>directive = t,
                  msg = ''debit account '' @ Account.String (Debit posting) @ '' is not open''\<rparr>, b)
      else BookAmount_loop
             (Book b (Credit posting) (Debit posting) (Posting.Amount posting)
                (Posting.Commodity posting)) t rest)"

definition BookAmount :: "Balance \<Rightarrow> Transaction \<Rightarrow> Error option \<times> Balance" where
  "BookAmount b t = BookAmount_loop b t (Postings t)"

text \<open>
  Modelled from the spec: within a day the booking engine takes the transactions in order
  and verifies and applies each posting (section 4.C, step 2). The processor that calls
  \<^verbatim>\<open>BookAmount\<close> for the transactions of a day is not among the sources; it stops at
  the first error.
\<close>

fun TransactionBooker_Process :: "Balance \<Rightarrow> Transaction list \<Rightarrow> Error option \<times> Balance" where
  "TransactionBooker_Process b [] = (None, b)"
| "TransactionBooker_Process b (t # ts) =
     (case BookAmount b t of
        (Some e, b') \<Rightarrow> (Some e, b')
      | (None, b') \<Rightarrow> TransactionBooker_Process b' ts)"

text \<open>The sum over all accounts of the amounts held in one commodity.\<close>

definition commodity_sum :: "Amounts \<Rightarrow> Commodity \<Rightarrow> decimal" where
  "commodity_sum m c =
     (\<Sum>pos \<in> {pos \<in> fmdom' m. CommodityAccount.Commodity pos = c}. read m pos)"

text \<open>Booking a list of postings without any check, one \<^verbatim>\<open>Book\<close> after the other.\<close>

fun Book_all :: "Balance \<Rightarrow> Posting list \<Rightarrow> Balance" where
  "Book_all b [] = b"
| "Book_all b (posting # rest) =
     Book_all (Book b (Credit posting) (Debit posting) (Posting.Amount posting)
                 (Posting.Commodity posting)) rest"

subsection \<open>Differences of balances\<close>

text \<open>
  One loop of \<^verbatim>\<open>Balance.Minus\<close>: for every key \<open>pos\<close> of the other map, holding \<open>va\<close>,
  the entry of the receiver becomes its old reading minus \<open>va\<close>. Each key is visited
  once and each iteration reads and writes its own key only, so the order of the
  iteration plays no role; the keys the other map does not hold are left as they are.
\<close>

definition Minus_loop :: "Amounts \<Rightarrow> Amounts \<Rightarrow> Amounts" where
  "Minus_loop m mo = m ++\<^sub>f fmmap_keys (\<lambda>pos va. Sub (read m pos) va) mo"

definition Minus :: "Balance \<Rightarrow> Balance \<Rightarrow> Balance" where
  "Minus b bo =
     b\<lparr>Amounts := Minus_loop (Amounts b) (Amounts bo),
       Values := Minus_loop (Values b) (Values bo)\<rparr>"

text \<open>
  \<^verbatim>\<open>Diffs\<close>: the slice holds one pointer per snapshot and every snapshot is a deep copy,
  so the slice is a list of balances updated in place by index. The loop runs \<open>i\<close>
  from \<open>len(bals) - 1\<close> down to \<open>1\<close>; \<open>Diffs_loop i\<close> is the loop entered with that
  \<open>i\<close>. Slicing \<^verbatim>\<open>bals[1:]\<close> panics on an empty slice, which is the value \<open>None\<close>.
\<close>

fun Diffs_loop :: "nat \<Rightarrow> Balance list \<Rightarrow> Balance list" where
  "Diffs_loop 0 bals = bals"
| "Diffs_loop (Suc j) bals =
     Diffs_loop j (bals[Suc j := Minus (bals ! Suc j) (bals ! j)])"

definition Diffs :: "Balance list \<Rightarrow> Balance list option" where
  "Diffs bals =
     (if bals = [] then None
      else Some (drop 1 (Diffs_loop (length bals - 1) bals)))"

subsection \<open>Order of the position keys\<close>

text \<open>
  \<^verbatim>\<open>CommodityAccount.Less\<close>. Go compares strings byte by byte, which is the
  lexicographic order of the character lists.
\<close>

definition Less :: "CommodityAccount \<Rightarrow> CommodityAccount \<Rightarrow> bool" where
  "Less p p1 =
     (if Account.Type (CommodityAccount.Account p) \<noteq> Account.Type (CommodityAccount.Account p1)
      then AccountType_int (Account.Type (CommodityAccount.Account p))
             < AccountType_int (Account.Type (CommodityAccount.Account p1))
      else if Account.String (CommodityAccount.Account p)
                \<noteq> Account.String (CommodityAccount.Account p1)
      then Account.String (CommodityAccount.Account p)
             < Account.String (CommodityAccount.Account p1)
      else Commodity.String (CommodityAccount.Commodity p)
             < Commodity.String (CommodityAccount.Commodity p1))"

section \<open>The ledger\<close>

text \<open>
  Modelled from the spec: the period of a partition is one of Days, Weeks, Months,
  Quarters, Years, Once (section 4.F). The package of dates, with the type \<^verbatim>\<open>Period\<close>
  and the function \<^verbatim>\<open>Series\<close>, is not among the sources: \<^verbatim>\<open>Series\<close> is a parameter of
  the functions that call it.
\<close>

datatype Period =
  Period_Days | Period_Weeks | Period_Months | Period_Quarters | Period_Years | Period_Once

type_synonym Series = "time \<Rightarrow> time \<Rightarrow> Period \<Rightarrow> time list"

record Day =
  Date :: time
  Prices :: "Price list"
  Assertions :: "Assertion list"
  Values :: "ValueDirective list"
  Openings :: "Open list"
  Transactions :: "Transaction list"
  Closings :: "Close list"

text \<open>The ledger, without its registry context.\<close>

record Ledger =
  Days :: "Day list"

text \<open>\<^verbatim>\<open>Ledger.MinDate\<close>; the second component is the flag \<^verbatim>\<open>ok\<close>.\<close>

fun MinDate_loop :: "Day list \<Rightarrow> time \<times> bool" where
  "MinDate_loop [] = (time_zero, False)"
| "MinDate_loop (s # rest) =
     (if length (Day.Openings s) > 0 then (Day.Date s, True) else MinDate_loop rest)"

definition MinDate :: "Ledger \<Rightarrow> time \<times> bool" where
  "MinDate l = MinDate_loop (Ledger.Days l)"

definition MaxDate :: "Ledger \<Rightarrow> time \<times> bool" where
  "MaxDate l =
     (if length (Ledger.Days l) = 0 then (time_zero, False)
      else (Day.Date (Ledger.Days l ! (length (Ledger.Days l) - 1)), True))"

text \<open>
  \<^verbatim>\<open>Ledger.Dates\<close>; a \<^verbatim>\<open>nil\<close> pointer argument is \<open>None\<close> and the \<^verbatim>\<open>nil\<close> slice is the
  empty list.
\<close>

definition Dates :: "Series \<Rightarrow> Ledger \<Rightarrow> time option \<Rightarrow> time option \<Rightarrow> Period \<Rightarrow> time list" where
  "Dates series l from to period =
     (case (case from of
              Some t \<Rightarrow> Some t
            | None \<Rightarrow> (if snd (MinDate l) then Some (fst (MinDate l)) else None)) of
        None \<Rightarrow> []
      | Some t0 \<Rightarrow>
          (case (case to of
                   Some t \<Rightarrow> Some t
                 | None \<Rightarrow> (if snd (MaxDate l) then Some (fst (MaxDate l)) else None)) of
             None \<Rightarrow> []
           | Some t1 \<Rightarrow> series t0 t1 period))"

subsection \<open>Accruals\<close>

record Accrual =
  Range :: Range
  Period :: Period
  T0 :: time
  T1 :: time
  Account :: Account
  Transaction :: Transaction

definition isAL :: "Account \<Rightarrow> bool" where
  "isAL a = (Account.Type a = ASSETS \<or> Account.Type a = LIABILITIES)"

definition isIE :: "Account \<Rightarrow> bool" where
  "isIE a = (Account.Type a = INCOME \<or> Account.Type a = EXPENSES)"

text \<open>The decimal digits of a natural number, as the verb \<^verbatim>\<open>%d\<close> prints them.\<close>

function Itoa :: "nat \<Rightarrow> string" where
  "Itoa n = (if n < 10 then [''0123456789'' ! n] else Itoa (n div 10) @ [''0123456789'' ! (n mod 10)])"
  by pat_completeness auto
termination
  by (relation "measure id") auto

declare Itoa.simps [simp del]

text \<open>
  The \<^verbatim>\<open>switch\<close> of \<^verbatim>\<open>Accrual.Expand\<close>: all four accounts start as the account of the
  accrual and each case overwrites two of them. The result is
  \<open>(crAccountSingle, drAccountSingle, crAccountMulti, drAccountMulti)\<close>.
\<close>

definition Expand_accounts :: "Account \<Rightarrow> Posting \<Rightarrow> Account \<times> Account \<times> Account \<times> Account" where
  "Expand_accounts account posting =
     (if isAL (Credit posting) \<and> isIE (Debit posting)
        then (Credit posting, account, account, Debit posting)
      else if isIE (Credit posting) \<and> isAL (Debit posting)
        then (account, Debit posting, Credit posting, account)
      else if isIE (Credit posting) \<and> isIE (Debit posting)
        then (account, account, Credit posting, Debit posting)
      else (Credit posting, Debit posting, account, account))"

text \<open>
  The loop over \<open>dates\<close>, entered at index \<open>i\<close> with the dates still to come; \<open>n\<close> is
  \<open>len(dates)\<close>.
\<close>

fun Expand_loop ::
  "Transaction \<Rightarrow> Posting \<Rightarrow> Account \<Rightarrow> Account \<Rightarrow> decimal \<Rightarrow> decimal \<Rightarrow> nat \<Rightarrow> nat \<Rightarrow> time list
     \<Rightarrow> Transaction list" where
  "Expand_loop t posting crAccountMulti drAccountMulti amount rem n i [] = []"
| "Expand_loop t posting crAccountMulti drAccountMulti amount rem n i (date # rest) =
     \<lparr>Transaction.Range = Transaction.Range t,
      Date = date,
      Description =
        Transaction.Description t @ '' (accrual '' @ Itoa (i + 1) @ ''/'' @ Itoa n @ '')'',
      Tags = Transaction.Tags t,
      Postings =
        [NewPosting crAccountMulti drAccountMulti (Posting.Commodity posting)
           (if i = 0 then Add amount rem else amount)]\<rparr>
     # Expand_loop t posting crAccountMulti drAccountMulti amount rem n (i + 1) rest"

definition Expand_multi ::
  "Transaction \<Rightarrow> Posting \<Rightarrow> Account \<Rightarrow> Account \<Rightarrow> decimal \<Rightarrow> decimal \<Rightarrow> time list
     \<Rightarrow> Transaction list" where
  "Expand_multi t posting crAccountMulti drAccountMulti amount rem dates =
     (if crAccountMulti \<noteq> drAccountMulti
      then Expand_loop t posting crAccountMulti drAccountMulti amount rem (length dates) 0 dates
      else [])"

definition Expand_single ::
  "Transaction \<Rightarrow> Posting \<Rightarrow> Account \<Rightarrow> Account \<Rightarrow> Transaction list" where
  "Expand_single t posting crAccountSingle drAccountSingle =
     (if crAccountSingle \<noteq> drAccountSingle
      then [\<lparr>Transaction.Range = Transaction.Range t,
             Date = Transaction.Date t,
             Description = Transaction.Description t,
             Tags = Transaction.Tags t,
             Postings =
               [NewPosting crAccountSingle drAccountSingle (Posting.Commodity posting)
                  (Posting.Amount posting)]\<rparr>]
      else [])"

text \<open>
  \<^verbatim>\<open>Accrual.Expand\<close>. Three steps can panic, and the result is \<open>None\<close> then: reading
  \<^verbatim>\<open>t.Postings[0]\<close> of a template without postings, slicing \<^verbatim>\<open>[1:]\<close> an empty series,
  and \<^verbatim>\<open>QuoRem\<close> by the length of \<open>dates\<close> when no date is left after the first.
\<close>

definition Expand :: "Series \<Rightarrow> Accrual \<Rightarrow> Transaction list option" where
  "Expand series a =
     (let t = Accrual.Transaction a in
      case Transaction.Postings t of
        [] \<Rightarrow> None
      | posting # _ \<Rightarrow>
          (case Expand_accounts (Accrual.Account a) posting of
             (crAccountSingle, drAccountSingle, crAccountMulti, drAccountMulti) \<Rightarrow>
               (case series (T0 a) (T1 a) (Accrual.Period a) of
                  [] \<Rightarrow> None
                | _ # dates \<Rightarrow>
                    (case QuoRem (Posting.Amount posting) (NewFromInt (int (length dates))) 1 of
                       None \<Rightarrow> None
                     | Some (amount, rem) \<Rightarrow>
                         Some (Expand_multi t posting crAccountMulti drAccountMulti amount rem dates
                               @ Expand_single t posting crAccountSingle drAccountSingle)))))"

text \<open>The amounts of all postings of a list of transactions, in order.\<close>

definition amounts_of :: "Transaction list \<Rightarrow> decimal list" where
  "amounts_of ts = concat (map (\<lambda>t. map Posting.Amount (Transaction.Postings t)) ts)"

section \<open>The journal builder\<close>

text \<open>
  The day record of the journal, with the lists of directives the builder fills; the
  normalized prices and the performance figures are attached by later stages.
\<close>

record journal_Day =
  Date :: time
  Prices :: "Price list"
  Assertions :: "Assertion list"
  Openings :: "Open list"
  Transactions :: "Transaction list"
  Closings :: "Close list"

record date_Period =
  Start :: time
  End :: time

text \<open>The journal; the registry pointer is an address.\<close>

record Journal =
  Registry :: nat
  Days :: "(time, journal_Day) fmap"
  min_t :: time
  max_t :: time

text \<open>\<^verbatim>\<open>date.Date(9999, 12, 31)\<close>, in days since the zero time.\<close>

definition Date_9999_12_31 :: time where
  "Date_9999_12_31 = 3652058"

definition New :: "nat \<Rightarrow> Journal" where
  "New reg = \<lparr>Registry = reg, Days = fmempty, min_t = Date_9999_12_31, max_t = time_zero\<rparr>"

text \<open>
  Modelled from the spec: the builder extends the matching day record (section 4.B).
  \<^verbatim>\<open>dict.GetDefault\<close> is not among the sources: it returns the day stored under the
  date, and stores a new one built by the callback when there is none. \<open>Day_of\<close> is
  the day returned by \<^verbatim>\<open>Journal.Day\<close>; since that day is shared with the map, each
  \<^verbatim>\<open>Add\<close> method below stores the day it has extended.
\<close>

definition Day_of :: "Journal \<Rightarrow> time \<Rightarrow> journal_Day" where
  "Day_of j d =
     (case fmlookup (Journal.Days j) d of
        Some day \<Rightarrow> day
      | None \<Rightarrow> \<lparr>journal_Day.Date = d, Prices = [], Assertions = [], Openings = [],
                 Transactions = [], Closings = []\<rparr>)"

definition AddOpen :: "Journal \<Rightarrow> Open \<Rightarrow> Journal" where
  "AddOpen j opn =
     (let d = Day_of j (Open.Date opn)
      in j\<lparr>Journal.Days :=
             fmupd (Open.Date opn) (d\<lparr>journal_Day.Openings := journal_Day.Openings d @ [opn]\<rparr>)
               (Journal.Days j)\<rparr>)"

definition AddPrice :: "Journal \<Rightarrow> Price \<Rightarrow> Journal" where
  "AddPrice j p =
     (let d = Day_of j (Price.Date p);
          j1 = (if max_t j < journal_Day.Date d then j\<lparr>max_t := journal_Day.Date d\<rparr> else j)
      in j1\<lparr>Journal.Days :=
              fmupd (Price.Date p) (d\<lparr>journal_Day.Prices := journal_Day.Prices d @ [p]\<rparr>)
                (Journal.Days j1)\<rparr>)"

definition AddTransaction :: "Journal \<Rightarrow> Transaction \<Rightarrow> Journal" where
  "AddTransaction j t =
     (let d = Day_of j (Transaction.Date t);
          j1 = (if max_t j < journal_Day.Date d then j\<lparr>max_t := journal_Day.Date d\<rparr> else j);
          j2 = (if min_t j1 > Transaction.Date t then j1\<lparr>min_t := journal_Day.Date d\<rparr> else j1)
      in j2\<lparr>Journal.Days :=
              fmupd (Transaction.Date t)
                (d\<lparr>journal_Day.Transactions := journal_Day.Transactions d @ [t]\<rparr>)
                (Journal.Days j2)\<rparr>)"

definition AddAssertion :: "Journal \<Rightarrow> Assertion \<Rightarrow> Journal" where
  "AddAssertion j a =
     (let d = Day_of j (Assertion.Date a)
      in j\<lparr>Journal.Days :=
             fmupd (Assertion.Date a)
               (d\<lparr>journal_Day.Assertions := journal_Day.Assertions d @ [a]\<rparr>)
               (Journal.Days j)\<rparr>)"

definition AddClose :: "Journal \<Rightarrow> Close \<Rightarrow> Journal" where
  "AddClose j c =
     (let d = Day_of j (Close.Date c)
      in j\<lparr>Journal.Days :=
             fmupd (Close.Date c) (d\<lparr>journal_Day.Closings := journal_Day.Closings d @ [c]\<rparr>)
               (Journal.Days j)\<rparr>)"

definition Period_of :: "Journal \<Rightarrow> date_Period" where
  "Period_of j = \<lparr>Start = min_t j, End = max_t j\<rparr>"

text \<open>
  The values the builder receives: the five kinds of directive of its type switch, and
  \<open>D_Other\<close> for a value of any other type, which the default case refuses.
\<close>

datatype Directive =
  D_Price Price
| D_Open Open
| D_Transaction Transaction
| D_Assertion Assertion
| D_Close Close
| D_Other

datatype CreateError = Unknown

text \<open>The body of the loop of \<^verbatim>\<open>Create\<close>: the type switch on one value.\<close>

fun Create_switch :: "Journal \<Rightarrow> Directive \<Rightarrow> CreateError + Journal" where
  "Create_switch j (D_Price t) = Inr (AddPrice j t)"
| "Create_switch j (D_Open t) = Inr (AddOpen j t)"
| "Create_switch j (D_Transaction t) = Inr (AddTransaction j t)"
| "Create_switch j (D_Assertion t) = Inr (AddAssertion j t)"
| "Create_switch j (D_Close t) = Inr (AddClose j t)"
| "Create_switch j D_Other = Inl Unknown"

text \<open>The loop over one batch \<open>input\<close> received from the channel.\<close>

fun Create_input :: "Journal \<Rightarrow> Directive list \<Rightarrow> CreateError + Journal" where
  "Create_input j [] = Inr j"
| "Create_input j (d # input) =
     (case Create_switch j d of
        Inl e \<Rightarrow> Inl e
      | Inr j' \<Rightarrow> Create_input j' input)"

text \<open>
  Modelled from the spec: the builder consumes the stream of directives until the source
  is exhausted and then returns the journal (section 4.B). \<^verbatim>\<open>cpr.Consume\<close> is not among
  the sources; it hands each batch of the channel to the callback and stops at the first
  error. The channel is the list of its batches.
\<close>

fun Create_consume :: "Journal \<Rightarrow> Directive list list \<Rightarrow> CreateError + Journal" where
  "Create_consume j [] = Inr j"
| "Create_consume j (input # modelCh) =
     (case Create_input j input of
        Inl e \<Rightarrow> Inl e
      | Inr j' \<Rightarrow> Create_consume j' modelCh)"

definition Create :: "nat \<Rightarrow> Directive list list \<Rightarrow> CreateError + Journal" where
  "Create reg modelCh = Create_consume (New reg) modelCh"

text \<open>
  The signed amount a posting moves to an account in a commodity: the amount counts
  positive on the debit side and negative on the credit side.
\<close>

definition posting_delta :: "Posting \<Rightarrow> Account \<Rightarrow> Commodity \<Rightarrow> decimal" where
  "posting_delta p a c =
     (if Debit p = a \<and> Posting.Commodity p = c then Posting.Amount p else 0)
     - (if Credit p = a \<and> Posting.Commodity p = c then Posting.Amount p else 0)"

text \<open>The triple of account type, account name and commodity code of a position key.\<close>

definition key_triple :: "CommodityAccount \<Rightarrow> AccountType \<times> string \<times> string" where
  "key_triple p =
     (Account.Type (CommodityAccount.Account p),
      Account.String (CommodityAccount.Account p),
      Commodity.String (CommodityAccount.Commodity p))"

text \<open>A date lies inside a period when it is between its start and its end, both included.\<close>

definition in_Period :: "date_Period \<Rightarrow> time \<Rightarrow> bool" where
  "in_Period p d = (date_Period.Start p \<le> d \<and> d \<le> date_Period.End p)"

text \<open>Every day of the journal is stored under its own date.\<close>

definition days_keyed :: "Journal \<Rightarrow> bool" where
  "days_keyed j = (\<forall>k d. fmlookup (Journal.Days j) k = Some d \<longrightarrow> journal_Day.Date d = k)"

text \<open>
  What the bounds of a journal cover of a directive: both ends for a transaction, the upper
  end for a price, nothing for the other kinds.
\<close>

definition covers :: "Journal \<Rightarrow> Directive \<Rightarrow> bool" where
  "covers j d =
     (case d of
        D_Transaction t \<Rightarrow> min_t j \<le> Transaction.Date t \<and> Transaction.Date t \<le> max_t j
      | D_Price p \<Rightarrow> Price.Date p \<le> max_t j
      | _ \<Rightarrow> True)"

text \<open>All postings of a list of transactions, in order.\<close>

definition postings_of :: "Transaction list \<Rightarrow> Posting list" where
  "postings_of ts = concat (map Transaction.Postings ts)"

text \<open>
  A leg from a credit to a debit account: one posting per amount, built by
  \<^verbatim>\<open>NewPosting\<close>, and no posting at all when the two accounts are the same.
\<close>

definition leg :: "Account \<Rightarrow> Account \<Rightarrow> Commodity \<Rightarrow> decimal list \<Rightarrow> Posting list" where
  "leg cr dr c amounts = (if cr = dr then [] else map (NewPosting cr dr c) amounts)"

text \<open>The amounts of \<open>n\<close> periods: the quotient, with the remainder added to the first.\<close>

definition multi_amounts :: "decimal \<Rightarrow> decimal \<Rightarrow> nat \<Rightarrow> decimal list" where
  "multi_amounts q r n = map (\<lambda>i. if i = 0 then q + r else q) [0..<n]"

section \<open>Example data\<close>

definition ex_range :: Range where
  "ex_range = \<lparr>Path = ''journal.knut'', Start = \<lparr>Line = 3, Col = 1\<rparr>, End = \<lparr>Line = 4, Col = 1\<rparr>\<rparr>"

definition Assets_Bank :: Account where
  "Assets_Bank = \<lparr>Account.Type = ASSETS, String = ''Assets:Bank''\<rparr>"

definition Assets_Prepaid :: Account where
  "Assets_Prepaid = \<lparr>Account.Type = ASSETS, String = ''Assets:Prepaid''\<rparr>"

definition Income_Salary :: Account where
  "Income_Salary = \<lparr>Account.Type = INCOME, String = ''Income:Salary''\<rparr>"

definition Expenses_Rent :: Account where
  "Expenses_Rent = \<lparr>Account.Type = EXPENSES, String = ''Expenses:Rent''\<rparr>"

definition USD :: Commodity where
  "USD = \<lparr>Commodity.String = ''USD''\<rparr>"

text \<open>An empty balance on which the bank and the salary account are open.\<close>

definition ex_balance :: Balance where
  "ex_balance =
     \<lparr>Balance.Date = 738885, Amounts = fmempty, Values = fmempty,
      Accounts = (\<lambda>a. a = Assets_Bank \<or> a = Income_Salary), Valuation = None\<rparr>"

text \<open>A salary payment of 1000 USD, then a rent payment of 400 USD to an account not open.\<close>

definition ex_pay :: Posting where
  "ex_pay = NewPosting Income_Salary Assets_Bank USD 1000"

definition ex_rent :: Posting where
  "ex_rent = NewPosting Assets_Bank Expenses_Rent USD 400"

definition ex_transaction :: "Posting list \<Rightarrow> Transaction" where
  "ex_transaction ps =
     \<lparr>Transaction.Range = ex_range, Date = 738899, Description = ''pay'', Tags = [],
      Postings = ps\<rparr>"

definition ex_bank_usd :: CommodityAccount where
  "ex_bank_usd = \<lparr>CommodityAccount.Account = Assets_Bank, Commodity = USD\<rparr>"

definition ex_prepaid_usd :: CommodityAccount where
  "ex_prepaid_usd = \<lparr>CommodityAccount.Account = Assets_Prepaid, Commodity = USD\<rparr>"

definition ex_salary_usd :: CommodityAccount where
  "ex_salary_usd = \<lparr>CommodityAccount.Account = Income_Salary, Commodity = USD\<rparr>"

text \<open>A ledger of one day that holds a transaction and no opening.\<close>

definition ex_ledger :: Ledger where
  "ex_ledger =
     \<lparr>Ledger.Days =
        [\<lparr>Day.Date = 738899, Prices = [], Assertions = [], Values = [], Openings = [],
          Transactions = [ex_transaction [ex_pay]], Closings = []\<rparr>]\<rparr>"

text \<open>A stand-in for the series of dates: the day before the start, then the end.\<close>

definition ex_series :: Series where
  "ex_series t0 t1 p = [t0 - 1, t1]"

text \<open>A cumulative balance after salary payments of \<open>x\<close> USD in total.\<close>

definition ex_cumulative :: "decimal \<Rightarrow> Balance" where
  "ex_cumulative x =
     \<lparr>Balance.Date = 738885,
      Amounts = fmupd ex_bank_usd x (fmupd ex_salary_usd (- x) fmempty),
      Values = fmempty,
      Accounts = (\<lambda>a. a = Assets_Bank \<or> a = Income_Salary), Valuation = None\<rparr>"

text \<open>An opening on 2024-01-01 and a price on 2024-01-31; the salary payment is on 2024-01-15.\<close>

definition ex_open_bank :: Open where
  "ex_open_bank = \<lparr>Open.Range = ex_range, Date = 738885, Account = Assets_Bank\<rparr>"

definition ex_price :: Price where
  "ex_price = \<lparr>Price.Range = ex_range, Date = 738915, Commodity = USD, Target = USD, Price = 1\<rparr>"

text \<open>
  A stand-in for the monthly series over the first quarter of 2024: the day before the
  start, then the three ends of month.
\<close>

definition ex_months :: Series where
  "ex_months t0 t1 p = [738884, 738915, 738944, 738975]"

text \<open>An accrual over that quarter, of one posting of USD from \<open>cr\<close> to \<open>dr\<close>.\<close>

definition ex_accrual :: "Account \<Rightarrow> Account \<Rightarrow> Account \<Rightarrow> decimal \<Rightarrow> Accrual" where
  "ex_accrual cr dr account a =
     \<lparr>Accrual.Range = ex_range, Period = Period_Months, T0 = 738885, T1 = 738975,
      Account = account,
      Transaction =
        \<lparr>Transaction.Range = ex_range, Date = 738885, Description = ''rent'', Tags = [],
         Postings = [NewPosting cr dr USD a]\<rparr>\<rparr>"

section \<open>Properties\<close>

subsection \<open>Booking and the equilibrium of debits and credits\<close>

lemma read_fmupd: "read (fmupd k v m) pos = (if k = pos then v else read m pos)"
  by (simp add: read_def)

lemma read_notin: "pos \<notin> fmdom' m \<Longrightarrow> read m pos = 0"
  by (simp add: read_def fmdom'_notD)

lemma commodity_sum_fmupd:
  "commodity_sum (fmupd k v m) c =
     commodity_sum m c + (if CommodityAccount.Commodity k = c then v - read m k else 0)"
proof (cases "CommodityAccount.Commodity k = c")
  case False
  then have "{pos \<in> fmdom' (fmupd k v m). CommodityAccount.Commodity pos = c}
      = {pos \<in> fmdom' m. CommodityAccount.Commodity pos = c}"
    by auto
  moreover have "\<And>pos. CommodityAccount.Commodity pos = c \<Longrightarrow> read (fmupd k v m) pos = read m pos"
    using False by (auto simp: read_fmupd)
  ultimately show ?thesis
    using False by (simp add: commodity_sum_def)
next
  case True
  let ?S = "{pos \<in> fmdom' m. CommodityAccount.Commodity pos = c}"
  have fin: "finite ?S" by simp
  have S': "{pos \<in> fmdom' (fmupd k v m). CommodityAccount.Commodity pos = c} = insert k ?S"
    using True by auto
  have "(\<Sum>pos \<in> insert k ?S. read (fmupd k v m) pos)
      = read (fmupd k v m) k + (\<Sum>pos \<in> ?S - {k}. read (fmupd k v m) pos)"
    using fin by (simp add: sum.insert_remove)
  also have "(\<Sum>pos \<in> ?S - {k}. read (fmupd k v m) pos) = (\<Sum>pos \<in> ?S - {k}. read m pos)"
    by (rule sum.cong) (auto simp: read_fmupd)
  finally have new: "(\<Sum>pos \<in> insert k ?S. read (fmupd k v m) pos)
      = v + (\<Sum>pos \<in> ?S - {k}. read m pos)"
    by (simp add: read_fmupd)
  have old: "(\<Sum>pos \<in> ?S. read m pos) = read m k + (\<Sum>pos \<in> ?S - {k}. read m pos)"
  proof (cases "k \<in> ?S")
    case True
    then show ?thesis using fin by (simp add: sum.remove)
  next
    case False
    then have "k \<notin> fmdom' m" using \<open>CommodityAccount.Commodity k = c\<close> by simp
    then have "read m k = 0" by (rule read_notin)
    then show ?thesis using False by simp
  qed
  show ?thesis
    unfolding commodity_sum_def S' using new old True by simp
qed

lemma commodity_sum_Book:
  "commodity_sum (Amounts (Book b cr dr a c)) c' = commodity_sum (Amounts b) c'"
  by (simp add: Book_def Let_def commodity_sum_fmupd Add_def Sub_def)

lemma commodity_sum_BookAmount_loop:
  "commodity_sum (Amounts (snd (BookAmount_loop b t ps))) c' = commodity_sum (Amounts b) c'"
  by (induction ps arbitrary: b) (simp_all add: commodity_sum_Book)

lemma commodity_sum_TransactionBooker:
  "commodity_sum (Amounts (snd (TransactionBooker_Process b ts))) c' = commodity_sum (Amounts b) c'"
proof (induction ts arbitrary: b)
  case Nil
  then show ?case by simp
next
  case (Cons t ts)
  have step: "commodity_sum (Amounts (snd (BookAmount b t))) c' = commodity_sum (Amounts b) c'"
    by (simp add: BookAmount_def commodity_sum_BookAmount_loop)
  show ?case
  proof (cases "BookAmount b t")
    case (Pair e b')
    then show ?thesis using step Cons.IH [of b'] by (cases e) simp_all
  qed
qed

lemma Amount_Book_credit:
  "cr \<noteq> dr \<Longrightarrow> Amount (Book b cr dr a c) cr c = Amount b cr c - a"
  by (simp add: Amount_def Book_def Let_def read_fmupd Sub_def Add_def)

lemma Amount_Book_debit:
  "cr \<noteq> dr \<Longrightarrow> Amount (Book b cr dr a c) dr c = Amount b dr c + a"
  by (simp add: Amount_def Book_def Let_def read_fmupd Sub_def Add_def)

lemma Amount_Book_same:
  "Amount (Book b cr cr a c) cr c = Amount b cr c"
  by (simp add: Amount_def Book_def Let_def read_fmupd Sub_def Add_def)

lemma Amount_Book_other:
  "(a', c') \<noteq> (cr, c) \<Longrightarrow> (a', c') \<noteq> (dr, c) \<Longrightarrow> Amount (Book b cr dr a c) a' c' = Amount b a' c'"
  by (auto simp add: Amount_def Book_def Let_def read_fmupd Sub_def Add_def)

text \<open>
  C1. \<^verbatim>\<open>Book(cr, dr, a, c)\<close> subtracts \<open>a\<close> from the entry of \<open>(cr, c)\<close> and adds it
  to the entry of \<open>(dr, c)\<close> (the two cancel when both accounts are the same). Hence, if
  the amounts of a balance sum to zero over all accounts for every commodity, they still
  do after the transactions of a day have been booked, whether the booking went through
  or stopped at an account that is not open.
\<close>

theorem booking_keeps_equilibrium:
  "(cr \<noteq> dr \<longrightarrow>
      Amount (Book b cr dr a c) cr c = Amount b cr c - a \<and>
      Amount (Book b cr dr a c) dr c = Amount b dr c + a) \<and>
   (cr = dr \<longrightarrow> Amount (Book b cr dr a c) cr c = Amount b cr c) \<and>
   ((\<forall>c'. commodity_sum (Amounts b) c' = 0) \<longrightarrow>
      (\<forall>c'. commodity_sum (Amounts (snd (TransactionBooker_Process b ts))) c' = 0))"
  by (simp add: Amount_Book_credit Amount_Book_debit Amount_Book_same
      commodity_sum_TransactionBooker)

text \<open>The salary payment of the simple ledger, booked on the empty balance.\<close>

theorem booking_keeps_equilibrium_witness:
  "Income_Salary \<noteq> Assets_Bank \<and>
   (\<forall>c'. commodity_sum (Amounts ex_balance) c' = 0) \<and>
   Amount (Book ex_balance Income_Salary Assets_Bank 1000 USD) Income_Salary USD = - 1000 \<and>
   Amount (Book ex_balance Income_Salary Assets_Bank 1000 USD) Assets_Bank USD = 1000 \<and>
   fst (TransactionBooker_Process ex_balance [ex_transaction [ex_pay]]) = None \<and>
   Amount (snd (TransactionBooker_Process ex_balance [ex_transaction [ex_pay]])) Assets_Bank USD = 1000 \<and>
   commodity_sum (Amounts (snd (TransactionBooker_Process ex_balance [ex_transaction [ex_pay]]))) USD = 0"
proof -
  have ne: "Income_Salary \<noteq> Assets_Bank"
    by (simp add: Income_Salary_def Assets_Bank_def)
  have zero: "\<forall>c'. commodity_sum (Amounts ex_balance) c' = 0"
    by (simp add: ex_balance_def commodity_sum_def)
  have run: "TransactionBooker_Process ex_balance [ex_transaction [ex_pay]]
      = (None, Book ex_balance Income_Salary Assets_Bank 1000 USD)"
    by (simp add: BookAmount_def ex_transaction_def ex_pay_def NewPosting_def IsNegative_def
        IsOpen_def ex_balance_def)
  have "Amount ex_balance Income_Salary USD = 0" "Amount ex_balance Assets_Bank USD = 0"
    by (simp_all add: Amount_def ex_balance_def read_def)
  with ne zero run
    booking_keeps_equilibrium [of Income_Salary Assets_Bank ex_balance 1000 USD "[ex_transaction [ex_pay]]"]
  show ?thesis by simp
qed

subsection \<open>Booking a transaction\<close>

lemma Accounts_Book: "Accounts (Book b cr dr a c) = Accounts b"
  by (simp add: Book_def Let_def)

lemma Accounts_Book_all: "Accounts (Book_all b ps) = Accounts b"
  by (induction ps arbitrary: b) (simp_all add: Accounts_Book)

lemma Values_Book: "Balance.Values (Book b cr dr a c) = Balance.Values b"
  by (simp add: Book_def Let_def)

lemma Values_Book_all: "Balance.Values (Book_all b ps) = Balance.Values b"
  by (induction ps arbitrary: b) (simp_all add: Values_Book)

lemma BookAmount_loop_all_open:
  "\<forall>p \<in> set ps. IsOpen (Accounts b) (Credit p) \<and> IsOpen (Accounts b) (Debit p)
   \<Longrightarrow> BookAmount_loop b t ps = (None, Book_all b ps)"
  by (induction ps arbitrary: b) (simp_all add: Accounts_Book)

lemma BookAmount_loop_append:
  "\<forall>p \<in> set pre. IsOpen (Accounts b) (Credit p) \<and> IsOpen (Accounts b) (Debit p)
   \<Longrightarrow> BookAmount_loop b t (pre @ rest) = BookAmount_loop (Book_all b pre) t rest"
  by (induction pre arbitrary: b) (simp_all add: Accounts_Book)

lemma BookAmount_loop_error:
  "fst (BookAmount_loop b t ps) \<noteq> None
   \<longleftrightarrow> (\<exists>p \<in> set ps. \<not> IsOpen (Accounts b) (Credit p) \<or> \<not> IsOpen (Accounts b) (Debit p))"
  by (induction ps arbitrary: b) (auto simp add: Accounts_Book)

lemma BookAmount_loop_directive:
  "fst (BookAmount_loop b t ps) = Some e \<Longrightarrow> directive e = t"
  by (induction ps arbitrary: b) (auto split: if_splits)

lemma Amount_Book:
  "Amount (Book b cr dr x c0) a c =
     Amount b a c + ((if dr = a \<and> c0 = c then x else 0) - (if cr = a \<and> c0 = c then x else 0))"
  by (auto simp add: Amount_def Book_def Let_def read_def Sub_def Add_def)

lemma Amount_Book_all:
  "Amount (Book_all b ps) a c = Amount b a c + (\<Sum>p \<leftarrow> ps. posting_delta p a c)"
  by (induction ps arbitrary: b) (simp_all add: Amount_Book posting_delta_def)

lemma ex_open:
  "IsOpen (Accounts ex_balance) Income_Salary" "IsOpen (Accounts ex_balance) Assets_Bank"
  "\<not> IsOpen (Accounts ex_balance) Expenses_Rent"
  by (simp_all add: IsOpen_def ex_balance_def Expenses_Rent_def Assets_Bank_def Income_Salary_def)

lemma ex_postings:
  "ex_pay = \<lparr>Posting.Amount = 1000, Value = 0, Credit = Income_Salary, Debit = Assets_Bank,
            Commodity = USD, Lot = None\<rparr>"
  "ex_rent = \<lparr>Posting.Amount = 400, Value = 0, Credit = Assets_Bank, Debit = Expenses_Rent,
            Commodity = USD, Lot = None\<rparr>"
  by (simp_all add: ex_pay_def ex_rent_def NewPosting_def IsNegative_def)

text \<open>
  C3. \<^verbatim>\<open>BookAmount(t)\<close> returns an error if and only if some posting of \<open>t\<close> has a
  credit or a debit account that is not open, and the error names \<open>t\<close>. When every
  account of every posting is open it returns \<^verbatim>\<open>nil\<close> and has applied every posting
  to the amounts: the amount of every account in every commodity has moved by the sum of
  what the postings of \<open>t\<close> debit to it minus what they credit from it, and the values
  and the open accounts are as before.
\<close>

theorem BookAmount_error_iff:
  "(fst (BookAmount b t) \<noteq> None \<longleftrightarrow>
      (\<exists>p \<in> set (Postings t).
         \<not> IsOpen (Accounts b) (Credit p) \<or> \<not> IsOpen (Accounts b) (Debit p))) \<and>
   (\<forall>e. fst (BookAmount b t) = Some e \<longrightarrow> directive e = t) \<and>
   ((\<forall>p \<in> set (Postings t). IsOpen (Accounts b) (Credit p) \<and> IsOpen (Accounts b) (Debit p))
      \<longrightarrow> BookAmount b t = (None, Book_all b (Postings t)) \<and>
          (\<forall>a c. Amount (snd (BookAmount b t)) a c
                   = Amount b a c + (\<Sum>p \<leftarrow> Postings t. posting_delta p a c)) \<and>
          Balance.Values (snd (BookAmount b t)) = Balance.Values b \<and>
          Accounts (snd (BookAmount b t)) = Accounts b)"
proof -
  have err: "fst (BookAmount b t) \<noteq> None \<longleftrightarrow>
      (\<exists>p \<in> set (Postings t).
         \<not> IsOpen (Accounts b) (Credit p) \<or> \<not> IsOpen (Accounts b) (Debit p))"
    unfolding BookAmount_def by (rule BookAmount_loop_error)
  have dir: "\<forall>e. fst (BookAmount b t) = Some e \<longrightarrow> directive e = t"
    unfolding BookAmount_def using BookAmount_loop_directive [of b t "Postings t"] by blast
  have ok: "BookAmount b t = (None, Book_all b (Postings t)) \<and>
          (\<forall>a c. Amount (snd (BookAmount b t)) a c
                   = Amount b a c + (\<Sum>p \<leftarrow> Postings t. posting_delta p a c)) \<and>
          Balance.Values (snd (BookAmount b t)) = Balance.Values b \<and>
          Accounts (snd (BookAmount b t)) = Accounts b"
    if "\<forall>p \<in> set (Postings t). IsOpen (Accounts b) (Credit p) \<and> IsOpen (Accounts b) (Debit p)"
  proof -
    have "BookAmount b t = (None, Book_all b (Postings t))"
      unfolding BookAmount_def using that by (rule BookAmount_loop_all_open)
    then show ?thesis
      by (simp add: Amount_Book_all Values_Book_all Accounts_Book_all)
  qed
  from err dir ok show ?thesis by blast
qed

text \<open>
  The salary payment alone goes through; followed by a rent payment to an account that
  is not open, the transaction is refused.
\<close>

theorem BookAmount_error_iff_witness:
  "BookAmount ex_balance (ex_transaction [ex_pay])
     = (None, Book ex_balance Income_Salary Assets_Bank 1000 USD) \<and>
   Amount ex_balance Assets_Bank USD = 0 \<and>
   Amount (snd (BookAmount ex_balance (ex_transaction [ex_pay]))) Assets_Bank USD = 1000 \<and>
   Amount (snd (BookAmount ex_balance (ex_transaction [ex_pay]))) Income_Salary USD = - 1000 \<and>
   map_option directive (fst (BookAmount ex_balance (ex_transaction [ex_pay, ex_rent])))
     = Some (ex_transaction [ex_pay, ex_rent])"
proof -
  have ok: "\<forall>p \<in> set (Postings (ex_transaction [ex_pay])).
      IsOpen (Accounts ex_balance) (Credit p) \<and> IsOpen (Accounts ex_balance) (Debit p)"
    by (simp add: ex_transaction_def ex_postings ex_open)
  have bad: "\<exists>p \<in> set (Postings (ex_transaction [ex_pay, ex_rent])).
      \<not> IsOpen (Accounts ex_balance) (Credit p) \<or> \<not> IsOpen (Accounts ex_balance) (Debit p)"
    by (simp add: ex_transaction_def ex_postings ex_open)
  have all: "Book_all ex_balance (Postings (ex_transaction [ex_pay]))
      = Book ex_balance Income_Salary Assets_Bank 1000 USD"
    by (simp add: ex_transaction_def ex_postings)
  note th = BookAmount_error_iff [of ex_balance "ex_transaction [ex_pay]"]
  from ok th have "BookAmount ex_balance (ex_transaction [ex_pay])
      = (None, Book_all ex_balance (Postings (ex_transaction [ex_pay])))"
    by blast
  with all have first: "BookAmount ex_balance (ex_transaction [ex_pay])
      = (None, Book ex_balance Income_Salary Assets_Bank 1000 USD)"
    by simp
  from ok th have moved: "Amount (snd (BookAmount ex_balance (ex_transaction [ex_pay]))) a c
      = Amount ex_balance a c + (\<Sum>p \<leftarrow> Postings (ex_transaction [ex_pay]). posting_delta p a c)"
    for a c
    by blast
  have zero: "Amount ex_balance Assets_Bank USD = 0" "Amount ex_balance Income_Salary USD = 0"
    by (simp_all add: Amount_def ex_balance_def read_def)
  have delta: "(\<Sum>p \<leftarrow> Postings (ex_transaction [ex_pay]). posting_delta p Assets_Bank USD) = 1000"
    "(\<Sum>p \<leftarrow> Postings (ex_transaction [ex_pay]). posting_delta p Income_Salary USD) = - 1000"
    by (simp_all add: ex_transaction_def posting_delta_def ex_postings Income_Salary_def
        Assets_Bank_def)
  have bank: "Amount (snd (BookAmount ex_balance (ex_transaction [ex_pay]))) Assets_Bank USD = 1000"
    unfolding moved [of Assets_Bank USD] zero delta by simp
  have salary: "Amount (snd (BookAmount ex_balance (ex_transaction [ex_pay]))) Income_Salary USD
      = - 1000"
    unfolding moved [of Income_Salary USD] zero delta by simp
  from bad BookAmount_error_iff [of ex_balance "ex_transaction [ex_pay, ex_rent]"]
  obtain e where "fst (BookAmount ex_balance (ex_transaction [ex_pay, ex_rent])) = Some e"
    and "directive e = ex_transaction [ex_pay, ex_rent]"
    by blast
  with first zero bank salary show ?thesis by simp
qed

text \<open>
  C9, as the claim states it, fails when the posting that stops \<^verbatim>\<open>BookAmount(t)\<close> is the
  first one: the call returns before anything is booked. A rent payment to an account
  that is not open, followed by the salary payment, is refused and the balance on error
  is the balance before the call.
\<close>

theorem BookAmount_not_atomic_counterexample:
  "fst (BookAmount ex_balance (ex_transaction [ex_rent, ex_pay])) \<noteq> None \<and>
   snd (BookAmount ex_balance (ex_transaction [ex_rent, ex_pay])) = ex_balance"
  by (simp add: BookAmount_def ex_transaction_def ex_postings ex_open)

text \<open>
  C9, amended. Booking a transaction is not atomic. When \<^verbatim>\<open>BookAmount(t)\<close> stops at a
  posting with an account that is not open, the postings before it have been booked and
  stay booked: the balance on error is the balance after those postings and every amount
  has moved by what they add up to. The balance is not the one before the call as soon as
  they add up to something, and it is the one before the call when no posting comes
  before the one that stops the call.
\<close>

theorem BookAmount_not_atomic:
  assumes "Postings t = pre @ posting # post"
    and "\<forall>p \<in> set pre. IsOpen (Accounts b) (Credit p) \<and> IsOpen (Accounts b) (Debit p)"
    and "\<not> IsOpen (Accounts b) (Credit posting) \<or> \<not> IsOpen (Accounts b) (Debit posting)"
  shows "fst (BookAmount b t) \<noteq> None \<and>
         snd (BookAmount b t) = Book_all b pre \<and>
         (\<forall>a c. Amount (snd (BookAmount b t)) a c
                  = Amount b a c + (\<Sum>p \<leftarrow> pre. posting_delta p a c)) \<and>
         ((\<exists>a c. (\<Sum>p \<leftarrow> pre. posting_delta p a c) \<noteq> 0) \<longrightarrow> snd (BookAmount b t) \<noteq> b) \<and>
         (pre = [] \<longrightarrow> snd (BookAmount b t) = b)"
proof -
  have "BookAmount b t = BookAmount_loop (Book_all b pre) t (posting # post)"
    using assms(1,2) by (simp add: BookAmount_def BookAmount_loop_append)
  moreover have "fst (BookAmount_loop (Book_all b pre) t (posting # post)) \<noteq> None"
    and "snd (BookAmount_loop (Book_all b pre) t (posting # post)) = Book_all b pre"
    using assms(3) by (auto simp add: Accounts_Book_all)
  ultimately have main: "fst (BookAmount b t) \<noteq> None" "snd (BookAmount b t) = Book_all b pre"
    by simp_all
  have amounts: "\<forall>a c. Amount (snd (BookAmount b t)) a c
      = Amount b a c + (\<Sum>p \<leftarrow> pre. posting_delta p a c)"
    using main(2) by (simp add: Amount_Book_all)
  have "snd (BookAmount b t) \<noteq> b" if "(\<Sum>p \<leftarrow> pre. posting_delta p a c) \<noteq> 0" for a c
  proof
    assume "snd (BookAmount b t) = b"
    then have "Amount b a c = Amount b a c + (\<Sum>p \<leftarrow> pre. posting_delta p a c)"
      using amounts by metis
    with that show False by simp
  qed
  moreover have "snd (BookAmount b t) = b" if "pre = []"
    using main(2) that by simp
  ultimately show ?thesis using main amounts by blast
qed

text \<open>The refused transaction above leaves the 1000 USD of its first posting on the bank account.\<close>

theorem BookAmount_not_atomic_witness:
  "fst (BookAmount ex_balance (ex_transaction [ex_pay, ex_rent])) \<noteq> None \<and>
   Amount (snd (BookAmount ex_balance (ex_transaction [ex_pay, ex_rent]))) Assets_Bank USD = 1000 \<and>
   Amount ex_balance Assets_Bank USD = 0 \<and>
   snd (BookAmount ex_balance (ex_transaction [ex_pay, ex_rent])) \<noteq> ex_balance"
proof -
  have split: "Postings (ex_transaction [ex_pay, ex_rent]) = [ex_pay] @ ex_rent # []"
    by (simp add: ex_transaction_def)
  have pre: "\<forall>p \<in> set [ex_pay].
      IsOpen (Accounts ex_balance) (Credit p) \<and> IsOpen (Accounts ex_balance) (Debit p)"
    by (simp add: ex_postings ex_open)
  have bad: "\<not> IsOpen (Accounts ex_balance) (Credit ex_rent)
      \<or> \<not> IsOpen (Accounts ex_balance) (Debit ex_rent)"
    by (simp add: ex_postings ex_open)
  have zero: "Amount ex_balance Assets_Bank USD = 0"
    by (simp add: Amount_def ex_balance_def read_def)
  have delta: "posting_delta ex_pay Assets_Bank USD = 1000"
    by (simp add: posting_delta_def ex_postings Income_Salary_def Assets_Bank_def)
  note th = BookAmount_not_atomic [OF split pre bad]
  from th have err: "fst (BookAmount ex_balance (ex_transaction [ex_pay, ex_rent])) \<noteq> None"
    by blast
  from th have "Amount (snd (BookAmount ex_balance (ex_transaction [ex_pay, ex_rent]))) Assets_Bank USD
      = Amount ex_balance Assets_Bank USD + (\<Sum>p \<leftarrow> [ex_pay]. posting_delta p Assets_Bank USD)"
    by blast
  with zero delta
  have amt: "Amount (snd (BookAmount ex_balance (ex_transaction [ex_pay, ex_rent]))) Assets_Bank USD = 1000"
    by simp
  from amt zero have "snd (BookAmount ex_balance (ex_transaction [ex_pay, ex_rent])) \<noteq> ex_balance"
    by auto
  with err amt zero show ?thesis by simp
qed

subsection \<open>Normal form of postings\<close>

text \<open>
  C6. \<^verbatim>\<open>NewPosting(cr, dr, c, amt)\<close> with a negative \<open>amt\<close> is the posting
  \<^verbatim>\<open>NewPosting(dr, cr, c, -amt)\<close>: credit and debit swapped, the amount negated. The
  amount of the posting returned is never negative.
\<close>

theorem NewPosting_normalizes:
  "(amt < 0 \<longrightarrow>
      NewPosting cr dr c amt = NewPosting dr cr c (Neg amt) \<and>
      Credit (NewPosting cr dr c amt) = dr \<and>
      Debit (NewPosting cr dr c amt) = cr \<and>
      Posting.Commodity (NewPosting cr dr c amt) = c \<and>
      Posting.Amount (NewPosting cr dr c amt) = - amt) \<and>
   0 \<le> Posting.Amount (NewPosting cr dr c amt) \<and>
   \<not> IsNegative (Posting.Amount (NewPosting cr dr c amt))"
  by (simp add: NewPosting_def IsNegative_def Neg_def)

text \<open>A rent payment entered with the amount \<open>-400\<close> and the accounts the wrong way round.\<close>

theorem NewPosting_normalizes_witness:
  "(- 400 :: decimal) < 0 \<and>
   NewPosting Expenses_Rent Assets_Bank USD (- 400) = NewPosting Assets_Bank Expenses_Rent USD 400 \<and>
   Credit (NewPosting Expenses_Rent Assets_Bank USD (- 400)) = Assets_Bank \<and>
   Posting.Amount (NewPosting Expenses_Rent Assets_Bank USD (- 400)) = 400"
proof -
  have neg: "(- 400 :: decimal) < 0" by simp
  have inv: "Neg (- 400) = 400" by (simp add: Neg_def)
  note th = NewPosting_normalizes [of "- 400" Expenses_Rent Assets_Bank USD]
  from th neg have "NewPosting Expenses_Rent Assets_Bank USD (- 400)
      = NewPosting Assets_Bank Expenses_Rent USD (Neg (- 400))"
    and "Credit (NewPosting Expenses_Rent Assets_Bank USD (- 400)) = Assets_Bank"
    and "Posting.Amount (NewPosting Expenses_Rent Assets_Bank USD (- 400)) = - (- 400)"
    by blast+
  with neg inv show ?thesis by simp
qed

subsection \<open>The order of position keys\<close>

lemma AccountType_int_inj: "AccountType_int x = AccountType_int y \<longleftrightarrow> x = y"
  by (cases x; cases y) simp_all

lemma Less_lex:
  "Less p q \<longleftrightarrow>
     AccountType_int (Account.Type (CommodityAccount.Account p))
       < AccountType_int (Account.Type (CommodityAccount.Account q))
     \<or> Account.Type (CommodityAccount.Account p) = Account.Type (CommodityAccount.Account q)
       \<and> Account.String (CommodityAccount.Account p) < Account.String (CommodityAccount.Account q)
     \<or> Account.Type (CommodityAccount.Account p) = Account.Type (CommodityAccount.Account q)
       \<and> Account.String (CommodityAccount.Account p) = Account.String (CommodityAccount.Account q)
       \<and> Commodity.String (CommodityAccount.Commodity p) < Commodity.String (CommodityAccount.Commodity q)"
  by (auto simp add: Less_def AccountType_int_inj)

lemma Less_irrefl: "\<not> Less p p"
  by (simp add: Less_def)

lemma Less_asym: "Less p q \<Longrightarrow> \<not> Less q p"
  by (auto simp add: Less_def split: if_splits)

lemma AccountType_int_neq:
  "x \<noteq> y \<Longrightarrow> AccountType_int x < AccountType_int y \<or> AccountType_int y < AccountType_int x"
  by (cases x; cases y) simp_all

lemma Less_total: "key_triple p \<noteq> key_triple q \<Longrightarrow> Less p q \<or> Less q p"
  using AccountType_int_neq [of "Account.Type (CommodityAccount.Account p)"
      "Account.Type (CommodityAccount.Account q)"]
  by (auto simp add: Less_def key_triple_def)

lemma Less_trans: "Less p q \<Longrightarrow> Less q r \<Longrightarrow> Less p r"
  unfolding Less_lex
  by (elim disjE conjE) (auto intro: less_trans simp: AccountType_int_inj)

lemma key_triple_eq: "key_triple p = key_triple q \<longleftrightarrow> p = q"
  by (cases p, cases q) (auto simp add: key_triple_def)

lemma ex_keys_Less: "Less ex_bank_usd ex_prepaid_usd" "Less ex_prepaid_usd ex_salary_usd"
  by (simp_all add: Less_def ex_bank_usd_def ex_prepaid_usd_def ex_salary_usd_def
      Assets_Bank_def Assets_Prepaid_def Income_Salary_def)

text \<open>
  C8. \<^verbatim>\<open>Less\<close> is the strict lexicographic order on account type, account name and
  commodity code. Of two keys with different triples exactly one is less than the other;
  no key is less than itself, and the relation is transitive.
\<close>

theorem Less_lexicographic:
  "(Less p q \<longleftrightarrow>
      AccountType_int (Account.Type (CommodityAccount.Account p))
        < AccountType_int (Account.Type (CommodityAccount.Account q))
      \<or> Account.Type (CommodityAccount.Account p) = Account.Type (CommodityAccount.Account q)
        \<and> Account.String (CommodityAccount.Account p) < Account.String (CommodityAccount.Account q)
      \<or> Account.Type (CommodityAccount.Account p) = Account.Type (CommodityAccount.Account q)
        \<and> Account.String (CommodityAccount.Account p) = Account.String (CommodityAccount.Account q)
        \<and> Commodity.String (CommodityAccount.Commodity p)
            < Commodity.String (CommodityAccount.Commodity q)) \<and>
   (key_triple p \<noteq> key_triple q \<longrightarrow> (Less p q \<longleftrightarrow> \<not> Less q p)) \<and>
   \<not> Less p p \<and>
   (Less p q \<and> Less q r \<longrightarrow> Less p r)"
  using Less_lex [of p q] Less_irrefl [of p] Less_asym [of p q] Less_total [of p q]
    Less_trans [of p q r]
  by blast

text \<open>Two asset accounts in name order, then an income account.\<close>

theorem Less_lexicographic_witness:
  "key_triple ex_bank_usd \<noteq> key_triple ex_prepaid_usd \<and>
   Less ex_bank_usd ex_prepaid_usd \<and> Less ex_prepaid_usd ex_salary_usd \<and>
   \<not> Less ex_prepaid_usd ex_bank_usd \<and> Less ex_bank_usd ex_salary_usd"
proof -
  have ne: "key_triple ex_bank_usd \<noteq> key_triple ex_prepaid_usd"
    by (simp add: key_triple_def ex_bank_usd_def ex_prepaid_usd_def Assets_Bank_def
        Assets_Prepaid_def)
  from ne ex_keys_Less Less_lexicographic [of ex_bank_usd ex_prepaid_usd ex_salary_usd]
  show ?thesis by blast
qed

subsection \<open>The first date of a ledger\<close>

lemma MinDate_loop_False:
  "\<not> snd (MinDate_loop ds) \<longleftrightarrow> (\<forall>d \<in> set ds. Day.Openings d = [])"
  by (induction ds) auto

lemma MinDate_loop_False_value:
  "\<forall>d \<in> set ds. Day.Openings d = [] \<Longrightarrow> MinDate_loop ds = (time_zero, False)"
  by (induction ds) auto

lemma MinDate_loop_first:
  "snd (MinDate_loop ds) \<Longrightarrow>
   \<exists>i < length ds. Day.Openings (ds ! i) \<noteq> [] \<and> (\<forall>j < i. Day.Openings (ds ! j) = [])
      \<and> fst (MinDate_loop ds) = Day.Date (ds ! i)"
proof (induction ds)
  case Nil
  then show ?case by simp
next
  case (Cons s rest)
  show ?case
  proof (cases "Day.Openings s = []")
    case True
    with Cons obtain i where i: "i < length rest" "Day.Openings (rest ! i) \<noteq> []"
      "\<forall>j < i. Day.Openings (rest ! j) = []" "fst (MinDate_loop rest) = Day.Date (rest ! i)"
      by auto
    have "\<forall>j < Suc i. Day.Openings ((s # rest) ! j) = []"
      using True i(3) by (auto simp add: nth_Cons split: nat.splits)
    with i True show ?thesis
      by (intro exI [of _ "Suc i"]) simp
  next
    case False
    then show ?thesis by (intro exI [of _ 0]) simp
  qed
qed

text \<open>
  C10. \<^verbatim>\<open>MinDate\<close> reports a date exactly when some day holds an opening, and the date
  is that of the first such day. On a ledger without any opening it reports absence, and
  \<^verbatim>\<open>Dates\<close> without a from-date returns \<^verbatim>\<open>nil\<close>, whatever the series function, the
  to-date and the period are.
\<close>

theorem MinDate_first_opening:
  "(snd (MinDate l) \<longleftrightarrow> (\<exists>d \<in> set (Ledger.Days l). Day.Openings d \<noteq> [])) \<and>
   (snd (MinDate l) \<longrightarrow>
      (\<exists>i < length (Ledger.Days l).
         Day.Openings (Ledger.Days l ! i) \<noteq> [] \<and>
         (\<forall>j < i. Day.Openings (Ledger.Days l ! j) = []) \<and>
         fst (MinDate l) = Day.Date (Ledger.Days l ! i))) \<and>
   ((\<forall>d \<in> set (Ledger.Days l). Day.Openings d = []) \<longrightarrow>
      MinDate l = (time_zero, False) \<and> Dates series l None to period = [])"
proof -
  have a: "snd (MinDate l) \<longleftrightarrow> (\<exists>d \<in> set (Ledger.Days l). Day.Openings d \<noteq> [])"
    using MinDate_loop_False [of "Ledger.Days l"] by (auto simp add: MinDate_def)
  have b: "snd (MinDate l) \<longrightarrow>
      (\<exists>i < length (Ledger.Days l).
         Day.Openings (Ledger.Days l ! i) \<noteq> [] \<and>
         (\<forall>j < i. Day.Openings (Ledger.Days l ! j) = []) \<and>
         fst (MinDate l) = Day.Date (Ledger.Days l ! i))"
    using MinDate_loop_first [of "Ledger.Days l"] by (simp add: MinDate_def)
  have c: "MinDate l = (time_zero, False) \<and> Dates series l None to period = []"
    if "\<forall>d \<in> set (Ledger.Days l). Day.Openings d = []"
    using MinDate_loop_False_value [OF that] by (simp add: MinDate_def Dates_def)
  from a b c show ?thesis by blast
qed

text \<open>
  A ledger whose only day holds a transaction: no dates without a from-date, although
  the same call with a from-date yields the series.
\<close>

theorem MinDate_first_opening_witness:
  "map Day.Openings (Ledger.Days ex_ledger) = [[]] \<and>
   MinDate ex_ledger = (time_zero, False) \<and>
   Dates ex_series ex_ledger None (Some 738915) Period_Months = [] \<and>
   Dates ex_series ex_ledger (Some 738885) (Some 738915) Period_Months = [738884, 738915]"
proof -
  have none: "\<forall>d \<in> set (Ledger.Days ex_ledger). Day.Openings d = []"
    by (simp add: ex_ledger_def)
  have given: "Dates ex_series ex_ledger (Some 738885) (Some 738915) Period_Months
      = [738884, 738915]"
    by (simp add: Dates_def ex_series_def)
  have days: "map Day.Openings (Ledger.Days ex_ledger) = [[]]"
    by (simp add: ex_ledger_def)
  from none MinDate_first_opening [of ex_ledger ex_series "Some 738915" Period_Months]
  have "MinDate ex_ledger = (time_zero, False)"
    and "Dates ex_series ex_ledger None (Some 738915) Period_Months = []"
    by blast+
  with days given show ?thesis by simp
qed

subsection \<open>Differences of cumulative balances\<close>

lemma read_Minus_loop: "read (Minus_loop m mo) pos = read m pos - read mo pos"
  by (auto simp add: Minus_loop_def read_def Sub_def split: option.splits dest: fmdom_notD)

lemma read_Minus:
  "read (Amounts (Minus b bo)) pos = read (Amounts b) pos - read (Amounts bo) pos"
  "read (Balance.Values (Minus b bo)) pos
     = read (Balance.Values b) pos - read (Balance.Values bo) pos"
  by (simp_all add: Minus_def read_Minus_loop)

lemma length_Diffs_loop: "length (Diffs_loop j bals) = length bals"
  by (induction j arbitrary: bals) simp_all

lemma nth_Diffs_loop:
  "j < length bals \<Longrightarrow> i < length bals \<Longrightarrow>
   Diffs_loop j bals ! i = (if 0 < i \<and> i \<le> j then Minus (bals ! i) (bals ! (i - 1)) else bals ! i)"
proof (induction j arbitrary: bals)
  case 0
  then show ?case by auto
next
  case (Suc j)
  let ?bals' = "bals[Suc j := Minus (bals ! Suc j) (bals ! j)]"
  have "Diffs_loop (Suc j) bals ! i = Diffs_loop j ?bals' ! i" by simp
  also have "\<dots> = (if 0 < i \<and> i \<le> j then Minus (?bals' ! i) (?bals' ! (i - 1)) else ?bals' ! i)"
    using Suc.prems by (intro Suc.IH) simp_all
  also have "\<dots> = (if 0 < i \<and> i \<le> Suc j then Minus (bals ! i) (bals ! (i - 1)) else bals ! i)"
    using Suc.prems by (cases "i = Suc j") (auto simp add: nth_list_update)
  finally show ?case .
qed

lemma Diffs_Some:
  assumes "bals \<noteq> []"
  shows "Diffs bals = Some (drop 1 (Diffs_loop (length bals - 1) bals))"
    and "length (drop 1 (Diffs_loop (length bals - 1) bals)) = length bals - 1"
    and "i < length bals - 1 \<Longrightarrow>
         drop 1 (Diffs_loop (length bals - 1) bals) ! i = Minus (bals ! Suc i) (bals ! i)"
proof -
  show "Diffs bals = Some (drop 1 (Diffs_loop (length bals - 1) bals))"
    using assms by (simp add: Diffs_def)
  show "length (drop 1 (Diffs_loop (length bals - 1) bals)) = length bals - 1"
    by (simp add: length_Diffs_loop)
  assume i: "i < length bals - 1"
  then have "drop 1 (Diffs_loop (length bals - 1) bals) ! i
      = Diffs_loop (length bals - 1) bals ! Suc i"
    by (simp add: length_Diffs_loop)
  also have "\<dots> = Minus (bals ! Suc i) (bals ! i)"
    using i nth_Diffs_loop [of "length bals - 1" bals "Suc i"] by simp
  finally show "drop 1 (Diffs_loop (length bals - 1) bals) ! i = Minus (bals ! Suc i) (bals ! i)" .
qed

lemma Diffs_empty: "Diffs [] = None"
  by (simp add: Diffs_def)

lemma telescope:
  fixes f :: "nat \<Rightarrow> decimal"
  shows "f 0 + (\<Sum>i<k. f (Suc i) - f i) = f k"
  by (induction k) simp_all

text \<open>
  C4. For a non-empty list of cumulative balances \<^verbatim>\<open>Diffs\<close> returns a list one element
  shorter. Its entry \<open>i\<close> is balance \<open>i + 1\<close> minus balance \<open>i\<close> of the list given, in
  the amounts and in the values, and the first balance plus the first \<open>k\<close> differences
  is the balance at \<open>k\<close>.
\<close>

theorem Diffs_telescope:
  assumes "bals \<noteq> []"
  shows "\<exists>ds. Diffs bals = Some ds \<and> length ds = length bals - 1 \<and>
     (\<forall>i < length ds.
        ds ! i = Minus (bals ! Suc i) (bals ! i) \<and>
        (\<forall>pos. read (Amounts (ds ! i)) pos
                  = read (Amounts (bals ! Suc i)) pos - read (Amounts (bals ! i)) pos \<and>
               read (Balance.Values (ds ! i)) pos
                  = read (Balance.Values (bals ! Suc i)) pos - read (Balance.Values (bals ! i)) pos)) \<and>
     (\<forall>k < length bals. \<forall>pos.
        read (Amounts (bals ! 0)) pos + (\<Sum>i<k. read (Amounts (ds ! i)) pos)
          = read (Amounts (bals ! k)) pos \<and>
        read (Balance.Values (bals ! 0)) pos + (\<Sum>i<k. read (Balance.Values (ds ! i)) pos)
          = read (Balance.Values (bals ! k)) pos)"
proof -
  define ds where "ds = drop 1 (Diffs_loop (length bals - 1) bals)"
  have some: "Diffs bals = Some ds" and len: "length ds = length bals - 1"
    using Diffs_Some(1,2) [OF assms] by (simp_all add: ds_def)
  have nth: "ds ! i = Minus (bals ! Suc i) (bals ! i)" if "i < length ds" for i
    using Diffs_Some(3) [OF assms, of i] that len by (simp add: ds_def)
  have diff: "read (Amounts (ds ! i)) pos
        = read (Amounts (bals ! Suc i)) pos - read (Amounts (bals ! i)) pos \<and>
      read (Balance.Values (ds ! i)) pos
        = read (Balance.Values (bals ! Suc i)) pos - read (Balance.Values (bals ! i)) pos"
    if "i < length ds" for i pos
    using nth [OF that] by (simp add: read_Minus)
  have sum: "read (Amounts (bals ! 0)) pos + (\<Sum>i<k. read (Amounts (ds ! i)) pos)
        = read (Amounts (bals ! k)) pos \<and>
      read (Balance.Values (bals ! 0)) pos + (\<Sum>i<k. read (Balance.Values (ds ! i)) pos)
        = read (Balance.Values (bals ! k)) pos"
    if "k < length bals" for k pos
  proof -
    have "i < length ds" if "i < k" for i
      using that \<open>k < length bals\<close> len by simp
    then have "(\<Sum>i<k. read (Amounts (ds ! i)) pos)
        = (\<Sum>i<k. read (Amounts (bals ! Suc i)) pos - read (Amounts (bals ! i)) pos)"
      and "(\<Sum>i<k. read (Balance.Values (ds ! i)) pos)
        = (\<Sum>i<k. read (Balance.Values (bals ! Suc i)) pos - read (Balance.Values (bals ! i)) pos)"
      using diff by (auto intro!: sum.cong)
    then show ?thesis
      using telescope [of "\<lambda>i. read (Amounts (bals ! i)) pos" k]
        telescope [of "\<lambda>i. read (Balance.Values (bals ! i)) pos" k]
      by simp
  qed
  from some len nth diff sum show ?thesis by blast
qed

text \<open>Three endpoints of a uniform income: two equal differences.\<close>

theorem Diffs_telescope_witness:
  "[ex_cumulative 1000, ex_cumulative 2000, ex_cumulative 3000] \<noteq> [] \<and>
   Diffs [ex_cumulative 1000, ex_cumulative 2000, ex_cumulative 3000]
     = Some [Minus (ex_cumulative 2000) (ex_cumulative 1000),
             Minus (ex_cumulative 3000) (ex_cumulative 2000)] \<and>
   read (Amounts (Minus (ex_cumulative 2000) (ex_cumulative 1000))) ex_bank_usd = 1000 \<and>
   read (Amounts (Minus (ex_cumulative 3000) (ex_cumulative 2000))) ex_salary_usd = - 1000 \<and>
   read (Amounts (ex_cumulative 1000)) ex_bank_usd
     + (read (Amounts (Minus (ex_cumulative 2000) (ex_cumulative 1000))) ex_bank_usd
        + read (Amounts (Minus (ex_cumulative 3000) (ex_cumulative 2000))) ex_bank_usd) = 3000"
proof -
  let ?bals = "[ex_cumulative 1000, ex_cumulative 2000, ex_cumulative 3000]"
  have ne: "?bals \<noteq> []" by simp
  from Diffs_telescope [OF ne] obtain ds where some: "Diffs ?bals = Some ds"
    and len': "length ds = length ?bals - 1"
    and nth: "\<forall>i < length ds. ds ! i = Minus (?bals ! Suc i) (?bals ! i) \<and>
        (\<forall>pos. read (Amounts (ds ! i)) pos
                  = read (Amounts (?bals ! Suc i)) pos - read (Amounts (?bals ! i)) pos \<and>
               read (Balance.Values (ds ! i)) pos
                  = read (Balance.Values (?bals ! Suc i)) pos - read (Balance.Values (?bals ! i)) pos)"
    by blast
  from len' have len: "length ds = 2" by simp
  from len have i0: "0 < length ds" and i1: "1 < length ds" by simp_all
  note n0 = nth [rule_format, OF i0] and n1 = nth [rule_format, OF i1]
  have d0: "ds ! 0 = Minus (ex_cumulative 2000) (ex_cumulative 1000)"
    using n0 [THEN conjunct1] by simp
  have d1: "ds ! 1 = Minus (ex_cumulative 3000) (ex_cumulative 2000)"
    using n1 [THEN conjunct1] by simp
  have ds: "ds = [Minus (ex_cumulative 2000) (ex_cumulative 1000),
      Minus (ex_cumulative 3000) (ex_cumulative 2000)]"
    using len d0 d1 by (intro nth_equalityI) (auto simp add: less_Suc_eq numeral_2_eq_2)
  have r0: "read (Amounts (ds ! 0)) ex_bank_usd
      = read (Amounts (ex_cumulative 2000)) ex_bank_usd - read (Amounts (ex_cumulative 1000)) ex_bank_usd"
    using n0 [THEN conjunct2, rule_format, of ex_bank_usd, THEN conjunct1] by simp
  have r1: "read (Amounts (ds ! 1)) ex_salary_usd
      = read (Amounts (ex_cumulative 3000)) ex_salary_usd - read (Amounts (ex_cumulative 2000)) ex_salary_usd"
    using n1 [THEN conjunct2, rule_format, of ex_salary_usd, THEN conjunct1] by simp
  have r1': "read (Amounts (ds ! 1)) ex_bank_usd
      = read (Amounts (ex_cumulative 3000)) ex_bank_usd - read (Amounts (ex_cumulative 2000)) ex_bank_usd"
    using n1 [THEN conjunct2, rule_format, of ex_bank_usd, THEN conjunct1] by simp
  have keys: "ex_bank_usd \<noteq> ex_salary_usd"
    by (simp add: ex_bank_usd_def ex_salary_usd_def Assets_Bank_def Income_Salary_def)
  have vals: "read (Amounts (ex_cumulative x)) ex_bank_usd = x"
    "read (Amounts (ex_cumulative x)) ex_salary_usd = - x" for x
    using keys by (simp_all add: ex_cumulative_def read_def)
  from r0 r1 r1' have "read (Amounts (ds ! 0)) ex_bank_usd = 1000"
    "read (Amounts (ds ! 1)) ex_salary_usd = - 1000" "read (Amounts (ds ! 1)) ex_bank_usd = 1000"
    by (simp_all add: vals)
  then have "read (Amounts (Minus (ex_cumulative 2000) (ex_cumulative 1000))) ex_bank_usd = 1000"
    "read (Amounts (Minus (ex_cumulative 3000) (ex_cumulative 2000))) ex_salary_usd = - 1000"
    "read (Amounts (Minus (ex_cumulative 3000) (ex_cumulative 2000))) ex_bank_usd = 1000"
    unfolding d0 d1 by simp_all
  with some ds show ?thesis
    by (simp add: vals)
qed

subsection \<open>The bounds of a journal\<close>

lemma Date_Day_of: "days_keyed j \<Longrightarrow> journal_Day.Date (Day_of j d) = d"
  by (auto simp add: days_keyed_def Day_of_def split: option.splits)

lemma days_keyed_New: "days_keyed (New reg)"
  by (simp add: days_keyed_def New_def)

lemma days_keyed_fmupd:
  assumes "days_keyed j" and "journal_Day.Date day = k"
    and "Journal.Days j' = fmupd k day (Journal.Days j)"
  shows "days_keyed j'"
  using assms by (auto simp add: days_keyed_def)

lemma days_keyed_bounds:
  "days_keyed (j\<lparr>max_t := x\<rparr>) = days_keyed j" "days_keyed (j\<lparr>min_t := y\<rparr>) = days_keyed j"
  by (simp_all add: days_keyed_def)

lemma AddOpen_bounds:
  "min_t (AddOpen j opn) = min_t j" "max_t (AddOpen j opn) = max_t j"
  by (simp_all add: AddOpen_def Let_def)

lemma AddOpen_keyed: "days_keyed j \<Longrightarrow> days_keyed (AddOpen j opn)"
  by (rule days_keyed_fmupd [where j = j and k = "Open.Date opn"
        and day = "(Day_of j (Open.Date opn))\<lparr>journal_Day.Openings :=
          journal_Day.Openings (Day_of j (Open.Date opn)) @ [opn]\<rparr>"])
    (simp_all add: AddOpen_def Let_def Date_Day_of)

lemma AddAssertion_bounds:
  "min_t (AddAssertion j a) = min_t j" "max_t (AddAssertion j a) = max_t j"
  by (simp_all add: AddAssertion_def Let_def)

lemma AddAssertion_keyed: "days_keyed j \<Longrightarrow> days_keyed (AddAssertion j a)"
  by (rule days_keyed_fmupd [where j = j and k = "Assertion.Date a"
        and day = "(Day_of j (Assertion.Date a))\<lparr>journal_Day.Assertions :=
          journal_Day.Assertions (Day_of j (Assertion.Date a)) @ [a]\<rparr>"])
    (simp_all add: AddAssertion_def Let_def Date_Day_of)

lemma AddClose_bounds:
  "min_t (AddClose j c) = min_t j" "max_t (AddClose j c) = max_t j"
  by (simp_all add: AddClose_def Let_def)

lemma AddClose_keyed: "days_keyed j \<Longrightarrow> days_keyed (AddClose j c)"
  by (rule days_keyed_fmupd [where j = j and k = "Close.Date c"
        and day = "(Day_of j (Close.Date c))\<lparr>journal_Day.Closings :=
          journal_Day.Closings (Day_of j (Close.Date c)) @ [c]\<rparr>"])
    (simp_all add: AddClose_def Let_def Date_Day_of)

lemma AddPrice_bounds:
  assumes "days_keyed j"
  shows "min_t (AddPrice j p) = min_t j" "max_t (AddPrice j p) = max (max_t j) (Price.Date p)"
  using assms by (simp_all add: AddPrice_def Let_def Date_Day_of)

lemma AddPrice_keyed: "days_keyed j \<Longrightarrow> days_keyed (AddPrice j p)"
  by (rule days_keyed_fmupd [where j = j and k = "Price.Date p"
        and day = "(Day_of j (Price.Date p))\<lparr>journal_Day.Prices :=
          journal_Day.Prices (Day_of j (Price.Date p)) @ [p]\<rparr>"])
    (simp_all add: AddPrice_def Let_def Date_Day_of)

lemma AddTransaction_bounds:
  assumes "days_keyed j"
  shows "min_t (AddTransaction j t) = min (min_t j) (Transaction.Date t)"
    "max_t (AddTransaction j t) = max (max_t j) (Transaction.Date t)"
  using assms by (simp_all add: AddTransaction_def Let_def Date_Day_of)

lemma AddTransaction_keyed: "days_keyed j \<Longrightarrow> days_keyed (AddTransaction j t)"
  by (rule days_keyed_fmupd [where j = j and k = "Transaction.Date t"
        and day = "(Day_of j (Transaction.Date t))\<lparr>journal_Day.Transactions :=
          journal_Day.Transactions (Day_of j (Transaction.Date t)) @ [t]\<rparr>"])
    (simp_all add: AddTransaction_def Let_def Date_Day_of)

lemma Create_switch_step:
  assumes "days_keyed j" and "Create_switch j d = Inr j'"
  shows "days_keyed j' \<and> min_t j' \<le> min_t j \<and> max_t j \<le> max_t j' \<and> covers j' d"
proof (cases d)
  case (D_Price p)
  with assms show ?thesis
    by (auto simp add: covers_def AddPrice_bounds AddPrice_keyed)
next
  case (D_Open opn)
  with assms show ?thesis
    by (auto simp add: covers_def AddOpen_bounds AddOpen_keyed)
next
  case (D_Transaction t)
  with assms show ?thesis
    by (auto simp add: covers_def AddTransaction_bounds AddTransaction_keyed)
next
  case (D_Assertion a)
  with assms show ?thesis
    by (auto simp add: covers_def AddAssertion_bounds AddAssertion_keyed)
next
  case (D_Close c)
  with assms show ?thesis
    by (auto simp add: covers_def AddClose_bounds AddClose_keyed)
next
  case D_Other
  with assms show ?thesis by simp
qed

lemma covers_mono:
  "covers j d \<Longrightarrow> min_t j' \<le> min_t j \<Longrightarrow> max_t j \<le> max_t j' \<Longrightarrow> covers j' d"
  by (auto simp add: covers_def split: Directive.splits)

lemma Create_input_bounds:
  assumes "days_keyed j" and "Create_input j input = Inr j'"
  shows "days_keyed j' \<and> min_t j' \<le> min_t j \<and> max_t j \<le> max_t j' \<and>
         (\<forall>d \<in> set input. covers j' d)"
  using assms
proof (induction input arbitrary: j)
  case Nil
  then show ?case by simp
next
  case (Cons d input)
  from Cons.prems(2) obtain j1 where s: "Create_switch j d = Inr j1"
    and r: "Create_input j1 input = Inr j'"
    by (auto split: sum.splits)
  note one = Create_switch_step [OF Cons.prems(1) s]
  from one have k1: "days_keyed j1" by simp
  note rest = Cons.IH [OF k1 r]
  from one rest have "covers j' d"
    by (auto intro: covers_mono)
  with one rest show ?case by auto
qed

lemma Create_consume_bounds:
  assumes "days_keyed j" and "Create_consume j modelCh = Inr j'"
  shows "days_keyed j' \<and> min_t j' \<le> min_t j \<and> max_t j \<le> max_t j' \<and>
         (\<forall>d \<in> set (concat modelCh). covers j' d)"
  using assms
proof (induction modelCh arbitrary: j)
  case Nil
  then show ?case by simp
next
  case (Cons input modelCh)
  from Cons.prems(2) obtain j1 where s: "Create_input j input = Inr j1"
    and r: "Create_consume j1 modelCh = Inr j'"
    by (auto split: sum.splits)
  note one = Create_input_bounds [OF Cons.prems(1) s]
  from one have k1: "days_keyed j1" by simp
  note rest = Cons.IH [OF k1 r]
  from one rest have "\<forall>d \<in> set input. covers j' d"
    by (auto intro: covers_mono)
  with one rest show ?case by auto
qed

lemma ex_Create:
  "Create 0 [[D_Open ex_open_bank, D_Transaction (ex_transaction [ex_pay])]]
     = Inr (AddTransaction (AddOpen (New 0) ex_open_bank) (ex_transaction [ex_pay]))"
  "Create 0 [[D_Open ex_open_bank, D_Transaction (ex_transaction [ex_pay])], [D_Price ex_price]]
     = Inr (AddPrice (AddTransaction (AddOpen (New 0) ex_open_bank) (ex_transaction [ex_pay]))
              ex_price)"
  by (simp_all add: Create_def)

lemma ex_Period_of:
  "Period_of (AddTransaction (AddOpen (New 0) ex_open_bank) (ex_transaction [ex_pay]))
     = \<lparr>Start = 738899, End = 738899\<rparr>"
  "Period_of (AddPrice (AddTransaction (AddOpen (New 0) ex_open_bank) (ex_transaction [ex_pay]))
       ex_price)
     = \<lparr>Start = 738899, End = 738915\<rparr>"
  by (simp_all add: New_def AddOpen_def AddTransaction_def AddPrice_def Let_def Day_of_def
      ex_open_bank_def ex_transaction_def ex_price_def Period_of_def Date_9999_12_31_def
      time_zero_def)

text \<open>
  C7, as the claim states it, fails on the simple ledger of the spec: an account is opened
  on 2024-01-01 and the first transaction is on 2024-01-15. The builder returns the bounds
  of the transaction alone, and the date of the opening is before them.
\<close>

theorem Create_bounds_counterexample:
  "map_sum id Period_of
     (Create 0 [[D_Open ex_open_bank, D_Transaction (ex_transaction [ex_pay])]])
     = Inr \<lparr>Start = 738899, End = 738899\<rparr> \<and>
   Open.Date ex_open_bank = 738885 \<and>
   \<not> in_Period \<lparr>Start = 738899, End = 738899\<rparr> (Open.Date ex_open_bank)"
proof -
  have "Open.Date ex_open_bank = 738885"
    by (simp add: ex_open_bank_def)
  then show ?thesis
    by (simp add: ex_Create ex_Period_of in_Period_def)
qed

text \<open>
  C7, amended. After the builder has consumed all directives, the date of every
  transaction lies inside the bounds, and the date of every price is not after the upper
  bound. Openings, assertions and closings leave the bounds as they are.
\<close>

theorem Create_bounds:
  assumes "Create reg modelCh = Inr j"
  shows "(\<forall>t. D_Transaction t \<in> set (concat modelCh) \<longrightarrow>
            in_Period (Period_of j) (Transaction.Date t)) \<and>
         (\<forall>p. D_Price p \<in> set (concat modelCh) \<longrightarrow>
            Price.Date p \<le> date_Period.End (Period_of j)) \<and>
         Period_of (AddOpen j0 opn) = Period_of j0 \<and>
         Period_of (AddAssertion j0 a) = Period_of j0 \<and>
         Period_of (AddClose j0 c) = Period_of j0"
proof -
  from assms Create_consume_bounds [OF days_keyed_New, of reg modelCh j]
  have "\<forall>d \<in> set (concat modelCh). covers j d"
    by (simp add: Create_def)
  then have "(\<forall>t. D_Transaction t \<in> set (concat modelCh) \<longrightarrow>
            in_Period (Period_of j) (Transaction.Date t)) \<and>
         (\<forall>p. D_Price p \<in> set (concat modelCh) \<longrightarrow>
            Price.Date p \<le> date_Period.End (Period_of j))"
    by (force simp add: covers_def in_Period_def Period_of_def)
  then show ?thesis
    by (simp add: Period_of_def AddOpen_bounds AddAssertion_bounds AddClose_bounds)
qed

text \<open>The simple ledger followed by a price on 2024-01-31, in a second batch.\<close>

theorem Create_bounds_witness:
  "map_sum id Period_of
     (Create 0 [[D_Open ex_open_bank, D_Transaction (ex_transaction [ex_pay])],
                [D_Price ex_price]])
     = Inr \<lparr>Start = 738899, End = 738915\<rparr> \<and>
   in_Period \<lparr>Start = 738899, End = 738915\<rparr> (Transaction.Date (ex_transaction [ex_pay])) \<and>
   Price.Date ex_price \<le> date_Period.End \<lparr>Start = 738899, End = 738915\<rparr>"
proof -
  let ?j = "AddPrice (AddTransaction (AddOpen (New 0) ex_open_bank) (ex_transaction [ex_pay]))
      ex_price"
  note th = Create_bounds [OF ex_Create(2)]
  have "in_Period (Period_of ?j) (Transaction.Date (ex_transaction [ex_pay]))"
    using th [THEN conjunct1] by simp
  moreover have "Price.Date ex_price \<le> date_Period.End (Period_of ?j)"
    using th [THEN conjunct2, THEN conjunct1] by simp
  ultimately show ?thesis
    by (simp add: ex_Create ex_Period_of)
qed

subsection \<open>Expansion of accruals\<close>

lemma floor_rat_numeral:
  "\<lfloor>(numeral a :: rat) / numeral b\<rfloor> = numeral a div numeral b"
  using floor_divide_of_int_eq [of "numeral a" "numeral b", where ?'a = rat] by simp

lemma QuoRem_Some:
  assumes "d2 \<noteq> 0"
  shows "\<exists>q r. QuoRem d d2 p = Some (q, r) \<and> d = d2 * q + r"
  using assms by (simp add: QuoRem_def Let_def)

lemma QuoRem_nonneg:
  assumes "0 \<le> d" and "0 < d2" and "QuoRem d d2 p = Some (q, r)"
  shows "0 \<le> q \<and> 0 \<le> r"
proof -
  let ?x = "d * 10 ^ p / d2"
  have x: "0 \<le> ?x" using assms(1,2) by simp
  then have tr: "trunc ?x = \<lfloor>?x\<rfloor>" by (simp add: trunc_def)
  from assms(2,3) have q: "q = of_int \<lfloor>?x\<rfloor> / 10 ^ p" and r: "r = d - d2 * q"
    by (auto simp add: QuoRem_def Let_def tr)
  from x have "0 \<le> \<lfloor>?x\<rfloor>" by simp
  then have q0: "0 \<le> q" unfolding q by simp
  have le: "of_int \<lfloor>?x\<rfloor> \<le> ?x" by (rule of_int_floor_le)
  note q
  also have "of_int \<lfloor>?x\<rfloor> / 10 ^ p \<le> ?x / 10 ^ p"
    using le by (rule divide_right_mono) simp
  also have "?x / 10 ^ p = d / d2" by simp
  finally have "q \<le> d / d2" .
  then have "d2 * q \<le> d" using assms(2) by (simp add: pos_le_divide_eq mult.commute)
  with q0 r show ?thesis by simp
qed

lemma postings_of_simps:
  "postings_of [] = []" "postings_of (t # ts) = Transaction.Postings t @ postings_of ts"
  "postings_of (ts @ us) = postings_of ts @ postings_of us"
  by (simp_all add: postings_of_def)

lemma amounts_of_postings: "amounts_of ts = map Posting.Amount (postings_of ts)"
  by (simp add: amounts_of_def postings_of_def map_concat comp_def)

lemma postings_of_Expand_loop:
  "postings_of (Expand_loop t posting cr dr q r n i dates)
     = map (\<lambda>k. NewPosting cr dr (Posting.Commodity posting) (if k = 0 then q + r else q))
         [i..<i + length dates]"
proof (induction dates arbitrary: i)
  case Nil
  then show ?case by (simp add: postings_of_simps)
next
  case (Cons date rest)
  have "[i..<i + length (date # rest)] = i # [Suc i..<Suc i + length rest]"
    by (subst upt_rec) simp
  with Cons [of "i + 1"] show ?case
    by (simp add: postings_of_simps Add_def del: upt_Suc)
qed

lemma length_Expand_loop:
  "length (Expand_loop t posting cr dr q r n i dates) = length dates"
  by (induction dates arbitrary: i) simp_all

lemma postings_of_Expand_multi:
  "postings_of (Expand_multi t posting cr dr q r dates)
     = leg cr dr (Posting.Commodity posting) (multi_amounts q r (length dates))"
  by (simp add: Expand_multi_def leg_def multi_amounts_def postings_of_Expand_loop
      postings_of_simps comp_def)

lemma postings_of_Expand_single:
  "postings_of (Expand_single t posting cr dr)
     = leg cr dr (Posting.Commodity posting) [Posting.Amount posting]"
  by (simp add: Expand_single_def leg_def postings_of_simps)

lemma length_Expand_multi:
  "length (Expand_multi t posting cr dr q r dates)
     = length (leg cr dr (Posting.Commodity posting) (multi_amounts q r (length dates)))"
  by (simp add: Expand_multi_def leg_def multi_amounts_def length_Expand_loop)

lemma length_Expand_single:
  "length (Expand_single t posting cr dr)
     = length (leg cr dr (Posting.Commodity posting) [Posting.Amount posting])"
  by (simp add: Expand_single_def leg_def)

lemma multi_amounts_Suc: "multi_amounts q r (Suc n) = (q + r) # replicate n q"
proof -
  have "[0..<Suc n] = 0 # map Suc [0..<n]"
    by (simp add: upt_conv_Cons map_Suc_upt del: upt_Suc)
  then have "multi_amounts q r (Suc n) = (q + r) # map (\<lambda>i. q) [0..<n]"
    by (simp add: multi_amounts_def comp_def del: upt_Suc)
  then show ?thesis by (simp add: map_replicate_const)
qed

lemma sum_list_multi_amounts:
  "0 < n \<Longrightarrow> sum_list (multi_amounts q r n) = of_nat n * q + r"
  by (cases n) (simp_all add: multi_amounts_Suc sum_list_replicate algebra_simps)

lemma Expand_result:
  assumes posts: "Transaction.Postings (Accrual.Transaction a) = posting # ps"
    and ser: "series (T0 a) (T1 a) (Accrual.Period a) = d0 # dates"
    and ne: "dates \<noteq> []"
    and acc: "Expand_accounts (Accrual.Account a) posting = (crS, drS, crM, drM)"
  shows "\<exists>q r txs.
      QuoRem (Posting.Amount posting) (NewFromInt (int (length dates))) 1 = Some (q, r) \<and>
      Posting.Amount posting = of_nat (length dates) * q + r \<and>
      Expand series a = Some txs \<and>
      postings_of txs
        = leg crM drM (Posting.Commodity posting) (multi_amounts q r (length dates))
          @ leg crS drS (Posting.Commodity posting) [Posting.Amount posting] \<and>
      length txs = length (postings_of txs)"
proof -
  from ne have "NewFromInt (int (length dates)) \<noteq> 0"
    by (simp add: NewFromInt_def)
  from QuoRem_Some [OF this, of "Posting.Amount posting" 1]
  obtain q r where qr: "QuoRem (Posting.Amount posting) (NewFromInt (int (length dates))) 1 = Some (q, r)"
    and eq: "Posting.Amount posting = of_nat (length dates) * q + r"
    by (auto simp add: NewFromInt_def)
  let ?t = "Accrual.Transaction a"
  let ?txs = "Expand_multi ?t posting crM drM q r dates @ Expand_single ?t posting crS drS"
  have ex: "Expand series a = Some ?txs"
    using posts ser acc qr by (simp add: Expand_def Let_def)
  have po: "postings_of ?txs
        = leg crM drM (Posting.Commodity posting) (multi_amounts q r (length dates))
          @ leg crS drS (Posting.Commodity posting) [Posting.Amount posting]"
    by (simp add: postings_of_simps postings_of_Expand_multi postings_of_Expand_single)
  have "length ?txs = length (postings_of ?txs)"
    unfolding po by (simp add: length_Expand_multi length_Expand_single)
  with qr eq ex po show ?thesis by blast
qed


lemma Expand_no_dates:
  assumes "series (T0 a) (T1 a) (Accrual.Period a) = [d0]"
  shows "Expand series a = None"
  using assms
  by (simp add: Expand_def Let_def QuoRem_def NewFromInt_def split: list.splits prod.splits)

lemma Amount_NewPosting: "Posting.Amount (NewPosting cr dr c a) = \<bar>a\<bar>"
  by (simp add: NewPosting_def IsNegative_def Neg_def)

lemma amounts_leg:
  "\<forall>a \<in> set as. 0 \<le> a \<Longrightarrow>
   map Posting.Amount (leg cr dr c as) = (if cr = dr then [] else as)"
  by (auto simp add: leg_def Amount_NewPosting intro: map_idI)

lemma multi_amounts_nonneg:
  "0 \<le> q \<Longrightarrow> 0 \<le> r \<Longrightarrow> \<forall>a \<in> set (multi_amounts q r n). 0 \<le> a"
  by (auto simp add: multi_amounts_def)

lemma ex_accounts_distinct:
  "Assets_Bank \<noteq> Assets_Prepaid" "Assets_Prepaid \<noteq> Assets_Bank"
  "Assets_Bank \<noteq> Expenses_Rent" "Expenses_Rent \<noteq> Assets_Bank"
  "Assets_Prepaid \<noteq> Expenses_Rent" "Expenses_Rent \<noteq> Assets_Prepaid"
  "Income_Salary \<noteq> Expenses_Rent" "Expenses_Rent \<noteq> Income_Salary"
  "Income_Salary \<noteq> Assets_Prepaid" "Assets_Prepaid \<noteq> Income_Salary"
  by (simp_all add: Assets_Bank_def Assets_Prepaid_def Expenses_Rent_def Income_Salary_def)

lemma ex_account_types:
  "isAL Assets_Bank" "isAL Assets_Prepaid" "isIE Expenses_Rent" "isIE Income_Salary"
  "\<not> isIE Assets_Bank" "\<not> isIE Assets_Prepaid" "\<not> isAL Expenses_Rent" "\<not> isAL Income_Salary"
  by (simp_all add: isAL_def isIE_def Assets_Bank_def Assets_Prepaid_def Expenses_Rent_def
      Income_Salary_def)

lemma ex_NewPosting:
  "0 \<le> x \<Longrightarrow> NewPosting cr dr c x
     = \<lparr>Posting.Amount = x, Value = 0, Credit = cr, Debit = dr, Commodity = c, Lot = None\<rparr>"
  by (simp add: NewPosting_def IsNegative_def)

lemma ex_QuoRem: "QuoRem 100 (NewFromInt 3) (Suc 0) = Some (333 / 10, 1 / 10)"
  by (simp add: QuoRem_def NewFromInt_def trunc_def floor_rat_numeral)

lemma ex_Expand_bank_rent:
  "Expand ex_months (ex_accrual Assets_Bank Expenses_Rent Assets_Prepaid 100)
     = Some (Expand_multi
               (Accrual.Transaction (ex_accrual Assets_Bank Expenses_Rent Assets_Prepaid 100))
               (NewPosting Assets_Bank Expenses_Rent USD 100) Assets_Prepaid Expenses_Rent
               (333 / 10) (1 / 10) [738915, 738944, 738975]
             @ Expand_single
                 (Accrual.Transaction (ex_accrual Assets_Bank Expenses_Rent Assets_Prepaid 100))
                 (NewPosting Assets_Bank Expenses_Rent USD 100) Assets_Bank Assets_Prepaid)"
proof -
  have "Transaction.Postings
      (Accrual.Transaction (ex_accrual Assets_Bank Expenses_Rent Assets_Prepaid 100))
      = [NewPosting Assets_Bank Expenses_Rent USD 100]"
    and "Accrual.Account (ex_accrual Assets_Bank Expenses_Rent Assets_Prepaid 100) = Assets_Prepaid"
    by (simp_all add: ex_accrual_def)
  moreover have "Expand_accounts Assets_Prepaid (NewPosting Assets_Bank Expenses_Rent USD 100)
      = (Assets_Bank, Assets_Prepaid, Assets_Prepaid, Expenses_Rent)"
    by (simp add: Expand_accounts_def ex_NewPosting ex_account_types)
  moreover have "Posting.Amount (NewPosting Assets_Bank Expenses_Rent USD 100) = 100"
    by (simp add: ex_NewPosting)
  ultimately show ?thesis
    by (simp add: Expand_def Let_def ex_months_def ex_QuoRem)
qed

lemma ex_Expand_salary_rent:
  "Expand ex_months (ex_accrual Income_Salary Expenses_Rent Assets_Prepaid 100)
     = Some (Expand_multi
               (Accrual.Transaction (ex_accrual Income_Salary Expenses_Rent Assets_Prepaid 100))
               (NewPosting Income_Salary Expenses_Rent USD 100) Income_Salary Expenses_Rent
               (333 / 10) (1 / 10) [738915, 738944, 738975]
             @ Expand_single
                 (Accrual.Transaction (ex_accrual Income_Salary Expenses_Rent Assets_Prepaid 100))
                 (NewPosting Income_Salary Expenses_Rent USD 100) Assets_Prepaid Assets_Prepaid)"
proof -
  have "Transaction.Postings
      (Accrual.Transaction (ex_accrual Income_Salary Expenses_Rent Assets_Prepaid 100))
      = [NewPosting Income_Salary Expenses_Rent USD 100]"
    and "Accrual.Account (ex_accrual Income_Salary Expenses_Rent Assets_Prepaid 100) = Assets_Prepaid"
    by (simp_all add: ex_accrual_def)
  moreover have "Expand_accounts Assets_Prepaid (NewPosting Income_Salary Expenses_Rent USD 100)
      = (Assets_Prepaid, Assets_Prepaid, Income_Salary, Expenses_Rent)"
    by (simp add: Expand_accounts_def ex_NewPosting ex_account_types)
  moreover have "Posting.Amount (NewPosting Income_Salary Expenses_Rent USD 100) = 100"
    by (simp add: ex_NewPosting)
  ultimately show ?thesis
    by (simp add: Expand_def Let_def ex_months_def ex_QuoRem)
qed

lemma ex_multi_amounts:
  "multi_amounts (333 / 10) (1 / 10) (Suc (Suc (Suc 0))) = [167 / 5, 333 / 10, 333 / 10]"
  by (simp add: multi_amounts_def upt_rec)

lemma ex_Expand_dates:
  "map_option (map (\<lambda>t. (Transaction.Date t, Transaction.Description t)))
     (Expand ex_months (ex_accrual Assets_Bank Expenses_Rent Assets_Prepaid 100))
     = Some [(738915, ''rent (accrual 1/3)''), (738944, ''rent (accrual 2/3)''),
             (738975, ''rent (accrual 3/3)''), (738885, ''rent'')]"
  unfolding ex_Expand_bank_rent
  by (simp add: Expand_multi_def Expand_single_def ex_accounts_distinct ex_accrual_def Itoa.simps)

text \<open>
  C2, as the claim states it, fails where both legs are emitted. An accrual of 100 USD
  from the bank to the rent account, split over three months through a prepaid account,
  expands into three transactions of 33.4, 33.3 and 33.3 USD and one of 100 USD: the
  amounts of all expanded transactions add up to 200 USD, twice the amount of the template.
\<close>

theorem Expand_amounts_counterexample:
  "map_option amounts_of
     (Expand ex_months (ex_accrual Assets_Bank Expenses_Rent Assets_Prepaid 100))
     = Some [167 / 5, 333 / 10, 333 / 10, 100] \<and>
   sum_list [167 / 5, 333 / 10, 333 / 10, 100 :: decimal] = 200 \<and>
   map Posting.Amount
     (Transaction.Postings
        (Accrual.Transaction (ex_accrual Assets_Bank Expenses_Rent Assets_Prepaid 100)))
     = [100]"
proof -
  have "map Posting.Amount
     (Transaction.Postings
        (Accrual.Transaction (ex_accrual Assets_Bank Expenses_Rent Assets_Prepaid 100)))
     = [100]"
    by (simp add: ex_accrual_def ex_NewPosting)
  moreover have "map_option amounts_of
     (Expand ex_months (ex_accrual Assets_Bank Expenses_Rent Assets_Prepaid 100))
     = Some [167 / 5, 333 / 10, 333 / 10, 100]"
    unfolding ex_Expand_bank_rent
    by (simp add: amounts_of_def Expand_multi_def Expand_single_def ex_accounts_distinct
        ex_NewPosting Add_def)
  ultimately show ?thesis by simp
qed

text \<open>
  C2, amended. When the series leaves \<open>N \<ge> 1\<close> dates after its first, \<^verbatim>\<open>Expand\<close> divides
  the amount \<open>A\<close> of the template by \<open>N\<close> into \<open>q\<close> and \<open>r\<close> with \<open>A = N * q + r\<close>. The
  multi-period leg is built from the amounts \<open>q + r, q, \<dots>, q\<close>, which add up to \<open>A\<close>
  exactly, and the single-period leg from \<open>A\<close> itself. For \<open>A \<ge> 0\<close> these are the amounts
  of the postings, and the amounts of all expanded transactions add up to \<open>A\<close> for each
  leg that is emitted.
\<close>

theorem Expand_amounts:
  assumes posts: "Transaction.Postings (Accrual.Transaction a) = posting # ps"
    and ser: "series (T0 a) (T1 a) (Accrual.Period a) = d0 # dates"
    and ne: "dates \<noteq> []"
    and acc: "Expand_accounts (Accrual.Account a) posting = (crS, drS, crM, drM)"
  shows "\<exists>q r txs.
      QuoRem (Posting.Amount posting) (NewFromInt (int (length dates))) 1 = Some (q, r) \<and>
      Posting.Amount posting = of_nat (length dates) * q + r \<and>
      Expand series a = Some txs \<and>
      postings_of txs
        = leg crM drM (Posting.Commodity posting) (multi_amounts q r (length dates))
          @ leg crS drS (Posting.Commodity posting) [Posting.Amount posting] \<and>
      multi_amounts q r (length dates) = (q + r) # replicate (length dates - 1) q \<and>
      sum_list (multi_amounts q r (length dates)) = Posting.Amount posting \<and>
      (0 \<le> Posting.Amount posting \<longrightarrow>
         amounts_of txs
           = (if crM = drM then [] else multi_amounts q r (length dates))
             @ (if crS = drS then [] else [Posting.Amount posting]) \<and>
         sum_list (amounts_of txs)
           = (if crM = drM then 0 else Posting.Amount posting)
             + (if crS = drS then 0 else Posting.Amount posting))"
proof -
  from Expand_result [where series = series and a = a, OF posts ser ne acc] obtain q r txs
    where qr: "QuoRem (Posting.Amount posting) (NewFromInt (int (length dates))) 1 = Some (q, r)"
      and eq: "Posting.Amount posting = of_nat (length dates) * q + r"
      and ex: "Expand series a = Some txs"
      and po: "postings_of txs
        = leg crM drM (Posting.Commodity posting) (multi_amounts q r (length dates))
          @ leg crS drS (Posting.Commodity posting) [Posting.Amount posting]"
    by blast
  from ne obtain n where n: "length dates = Suc n"
    by (cases dates) simp_all
  have shape: "multi_amounts q r (length dates) = (q + r) # replicate (length dates - 1) q"
    by (simp add: n multi_amounts_Suc)
  have total: "sum_list (multi_amounts q r (length dates)) = Posting.Amount posting"
    using eq by (simp add: n sum_list_multi_amounts)
  have nonneg: "amounts_of txs
           = (if crM = drM then [] else multi_amounts q r (length dates))
             @ (if crS = drS then [] else [Posting.Amount posting]) \<and>
         sum_list (amounts_of txs)
           = (if crM = drM then 0 else Posting.Amount posting)
             + (if crS = drS then 0 else Posting.Amount posting)"
    if A: "0 \<le> Posting.Amount posting"
  proof -
    have "0 < NewFromInt (int (length dates))"
      by (simp add: NewFromInt_def n)
    from QuoRem_nonneg [OF A this qr] have "0 \<le> q" "0 \<le> r" by simp_all
    then have m: "\<forall>x \<in> set (multi_amounts q r (length dates)). 0 \<le> x"
      by (rule multi_amounts_nonneg)
    have s: "\<forall>x \<in> set [Posting.Amount posting]. 0 \<le> x"
      using A by simp
    have "amounts_of txs
           = (if crM = drM then [] else multi_amounts q r (length dates))
             @ (if crS = drS then [] else [Posting.Amount posting])"
      unfolding amounts_of_postings po map_append amounts_leg [OF m] amounts_leg [OF s] ..
    with total show ?thesis by simp
  qed
  from qr eq ex po shape total nonneg show ?thesis by blast
qed

text \<open>
  An accrual between an income and an expense account has the multi-period leg only: its
  three amounts add up to the 100 USD of the template.
\<close>

theorem Expand_amounts_witness:
  "map_option amounts_of
     (Expand ex_months (ex_accrual Income_Salary Expenses_Rent Assets_Prepaid 100))
     = Some [167 / 5, 333 / 10, 333 / 10] \<and>
   sum_list [167 / 5, 333 / 10, 333 / 10 :: decimal] = 100"
proof -
  let ?a = "ex_accrual Income_Salary Expenses_Rent Assets_Prepaid 100"
  let ?p = "NewPosting Income_Salary Expenses_Rent USD 100"
  have posts: "Transaction.Postings (Accrual.Transaction ?a) = ?p # []"
    by (simp add: ex_accrual_def)
  have ser: "ex_months (T0 ?a) (T1 ?a) (Accrual.Period ?a) = 738884 # [738915, 738944, 738975]"
    by (simp add: ex_months_def)
  have ne: "[738915, 738944, 738975 :: time] \<noteq> []"
    by simp
  have acc: "Expand_accounts (Accrual.Account ?a) ?p
      = (Assets_Prepaid, Assets_Prepaid, Income_Salary, Expenses_Rent)"
    by (simp add: ex_accrual_def Expand_accounts_def ex_NewPosting ex_account_types)
  have amt: "Posting.Amount ?p = 100"
    by (simp add: ex_NewPosting)
  from Expand_amounts [where series = ex_months and a = ?a, OF posts ser ne acc]
  obtain q r txs
    where qr: "QuoRem (Posting.Amount ?p) (NewFromInt (int (length [738915, 738944, 738975 :: time]))) 1
        = Some (q, r)"
      and ex: "Expand ex_months ?a = Some txs"
      and am: "0 \<le> Posting.Amount ?p \<longrightarrow>
         amounts_of txs
           = (if Income_Salary = Expenses_Rent then []
              else multi_amounts q r (length [738915, 738944, 738975 :: time]))
             @ (if Assets_Prepaid = Assets_Prepaid then [] else [Posting.Amount ?p]) \<and>
         sum_list (amounts_of txs)
           = (if Income_Salary = Expenses_Rent then 0 else Posting.Amount ?p)
             + (if Assets_Prepaid = Assets_Prepaid then 0 else Posting.Amount ?p)"
    by blast
  from qr have "q = 333 / 10" "r = 1 / 10"
    by (simp_all add: amt ex_QuoRem)
  with am have "amounts_of txs = [167 / 5, 333 / 10, 333 / 10]" "sum_list (amounts_of txs) = 100"
    by (simp_all add: amt ex_accounts_distinct ex_multi_amounts)
  with ex show ?thesis by simp
qed

text \<open>
  C5, as the claim states it, fails when credit and debit account are both income or
  expense accounts: the multi-period postings go from the credit to the debit account
  of the template, no single-period posting is emitted, and the account of the accrual
  (the prepaid account here) is on no side of any posting.
\<close>

theorem Expand_legs_counterexample:
  "isIE Income_Salary \<and> isIE Expenses_Rent \<and>
   Accrual.Account (ex_accrual Income_Salary Expenses_Rent Assets_Prepaid 100) = Assets_Prepaid \<and>
   map_option postings_of
     (Expand ex_months (ex_accrual Income_Salary Expenses_Rent Assets_Prepaid 100))
     = Some [\<lparr>Posting.Amount = 167 / 5, Value = 0, Credit = Income_Salary,
              Debit = Expenses_Rent, Commodity = USD, Lot = None\<rparr>,
             \<lparr>Posting.Amount = 333 / 10, Value = 0, Credit = Income_Salary,
              Debit = Expenses_Rent, Commodity = USD, Lot = None\<rparr>,
             \<lparr>Posting.Amount = 333 / 10, Value = 0, Credit = Income_Salary,
              Debit = Expenses_Rent, Commodity = USD, Lot = None\<rparr>]"
proof -
  have "Accrual.Account (ex_accrual Income_Salary Expenses_Rent Assets_Prepaid 100) = Assets_Prepaid"
    by (simp add: ex_accrual_def)
  moreover have "map_option postings_of
     (Expand ex_months (ex_accrual Income_Salary Expenses_Rent Assets_Prepaid 100))
     = Some [\<lparr>Posting.Amount = 167 / 5, Value = 0, Credit = Income_Salary,
              Debit = Expenses_Rent, Commodity = USD, Lot = None\<rparr>,
             \<lparr>Posting.Amount = 333 / 10, Value = 0, Credit = Income_Salary,
              Debit = Expenses_Rent, Commodity = USD, Lot = None\<rparr>,
             \<lparr>Posting.Amount = 333 / 10, Value = 0, Credit = Income_Salary,
              Debit = Expenses_Rent, Commodity = USD, Lot = None\<rparr>]"
    unfolding ex_Expand_salary_rent
    by (simp add: postings_of_def Expand_multi_def Expand_single_def ex_accounts_distinct
        ex_NewPosting Add_def)
  ultimately show ?thesis by (simp add: ex_account_types)
qed

text \<open>
  C5, amended. With credit account \<open>C\<close> and debit account \<open>D\<close> of the template and the
  account \<open>S\<close> of the accrual: for \<open>C\<close> of assets or liabilities and \<open>D\<close> of income or
  expenses the multi-period leg is \<open>(S, D)\<close> and the single-period leg \<open>(C, S)\<close>; for \<open>C\<close> of
  income or expenses and \<open>D\<close> of assets or liabilities they are \<open>(C, S)\<close> and \<open>(S, D)\<close>; when
  both are of income or expenses there is the multi-period leg \<open>(C, D)\<close> only; otherwise
  there is the single-period leg \<open>(C, D)\<close> only. A leg between an account and itself has
  no posting, and every transaction emitted carries one posting.
\<close>

theorem Expand_legs:
  assumes posts: "Transaction.Postings (Accrual.Transaction a) = posting # ps"
    and ser: "series (T0 a) (T1 a) (Accrual.Period a) = d0 # dates"
    and ne: "dates \<noteq> []"
  shows "\<exists>q r txs.
      QuoRem (Posting.Amount posting) (NewFromInt (int (length dates))) 1 = Some (q, r) \<and>
      Expand series a = Some txs \<and>
      length txs = length (postings_of txs) \<and>
      (isAL (Credit posting) \<and> isIE (Debit posting) \<longrightarrow>
         postings_of txs
           = leg (Accrual.Account a) (Debit posting) (Posting.Commodity posting)
               (multi_amounts q r (length dates))
             @ leg (Credit posting) (Accrual.Account a) (Posting.Commodity posting)
                 [Posting.Amount posting]) \<and>
      (isIE (Credit posting) \<and> isAL (Debit posting) \<longrightarrow>
         postings_of txs
           = leg (Credit posting) (Accrual.Account a) (Posting.Commodity posting)
               (multi_amounts q r (length dates))
             @ leg (Accrual.Account a) (Debit posting) (Posting.Commodity posting)
                 [Posting.Amount posting]) \<and>
      (isIE (Credit posting) \<and> isIE (Debit posting) \<longrightarrow>
         postings_of txs
           = leg (Credit posting) (Debit posting) (Posting.Commodity posting)
               (multi_amounts q r (length dates))) \<and>
      (\<not> (isAL (Credit posting) \<and> isIE (Debit posting)) \<and>
       \<not> (isIE (Credit posting) \<and> isAL (Debit posting)) \<and>
       \<not> (isIE (Credit posting) \<and> isIE (Debit posting)) \<longrightarrow>
         postings_of txs
           = leg (Credit posting) (Debit posting) (Posting.Commodity posting)
               [Posting.Amount posting])"
proof -
  obtain crS drS crM drM
    where acc: "Expand_accounts (Accrual.Account a) posting = (crS, drS, crM, drM)"
    by (cases "Expand_accounts (Accrual.Account a) posting") auto
  from Expand_result [where series = series and a = a, OF posts ser ne acc] obtain q r txs
    where qr: "QuoRem (Posting.Amount posting) (NewFromInt (int (length dates))) 1 = Some (q, r)"
      and ex: "Expand series a = Some txs"
      and po: "postings_of txs
        = leg crM drM (Posting.Commodity posting) (multi_amounts q r (length dates))
          @ leg crS drS (Posting.Commodity posting) [Posting.Amount posting]"
      and len: "length txs = length (postings_of txs)"
    by blast
  have excl: "\<not> isAL x" if "isIE x" for x
    using that by (auto simp add: isAL_def isIE_def)
  have c1: "crS = Credit posting \<and> drS = Accrual.Account a \<and> crM = Accrual.Account a
      \<and> drM = Debit posting"
    if "isAL (Credit posting) \<and> isIE (Debit posting)"
    using acc that by (auto simp add: Expand_accounts_def)
  have c2: "crS = Accrual.Account a \<and> drS = Debit posting \<and> crM = Credit posting
      \<and> drM = Accrual.Account a"
    if "isIE (Credit posting) \<and> isAL (Debit posting)"
    using acc that by (auto simp add: Expand_accounts_def excl)
  have c3: "crS = Accrual.Account a \<and> drS = Accrual.Account a \<and> crM = Credit posting
      \<and> drM = Debit posting"
    if "isIE (Credit posting) \<and> isIE (Debit posting)"
    using acc that by (auto simp add: Expand_accounts_def excl)
  have c4: "crS = Credit posting \<and> drS = Debit posting \<and> crM = Accrual.Account a
      \<and> drM = Accrual.Account a"
    if "\<not> (isAL (Credit posting) \<and> isIE (Debit posting)) \<and>
       \<not> (isIE (Credit posting) \<and> isAL (Debit posting)) \<and>
       \<not> (isIE (Credit posting) \<and> isIE (Debit posting))"
    using acc that by (auto simp add: Expand_accounts_def)
  have same: "leg x x c as = []" for x c as
    by (simp add: leg_def)
  from po c1 c2 c3 c4 have
    "(isAL (Credit posting) \<and> isIE (Debit posting) \<longrightarrow>
         postings_of txs
           = leg (Accrual.Account a) (Debit posting) (Posting.Commodity posting)
               (multi_amounts q r (length dates))
             @ leg (Credit posting) (Accrual.Account a) (Posting.Commodity posting)
                 [Posting.Amount posting])"
    "(isIE (Credit posting) \<and> isAL (Debit posting) \<longrightarrow>
         postings_of txs
           = leg (Credit posting) (Accrual.Account a) (Posting.Commodity posting)
               (multi_amounts q r (length dates))
             @ leg (Accrual.Account a) (Debit posting) (Posting.Commodity posting)
                 [Posting.Amount posting])"
    "(isIE (Credit posting) \<and> isIE (Debit posting) \<longrightarrow>
         postings_of txs
           = leg (Credit posting) (Debit posting) (Posting.Commodity posting)
               (multi_amounts q r (length dates)))"
    "(\<not> (isAL (Credit posting) \<and> isIE (Debit posting)) \<and>
       \<not> (isIE (Credit posting) \<and> isAL (Debit posting)) \<and>
       \<not> (isIE (Credit posting) \<and> isIE (Debit posting)) \<longrightarrow>
         postings_of txs
           = leg (Credit posting) (Debit posting) (Posting.Commodity posting)
               [Posting.Amount posting])"
    by (auto simp add: same)
  with qr ex len show ?thesis by blast
qed

text \<open>The accrual from the bank to the rent account: three postings from the prepaid
  account to the rent account, one from the bank to the prepaid account.\<close>

theorem Expand_legs_witness:
  "map_option postings_of
     (Expand ex_months (ex_accrual Assets_Bank Expenses_Rent Assets_Prepaid 100))
     = Some [\<lparr>Posting.Amount = 167 / 5, Value = 0, Credit = Assets_Prepaid,
              Debit = Expenses_Rent, Commodity = USD, Lot = None\<rparr>,
             \<lparr>Posting.Amount = 333 / 10, Value = 0, Credit = Assets_Prepaid,
              Debit = Expenses_Rent, Commodity = USD, Lot = None\<rparr>,
             \<lparr>Posting.Amount = 333 / 10, Value = 0, Credit = Assets_Prepaid,
              Debit = Expenses_Rent, Commodity = USD, Lot = None\<rparr>,
             \<lparr>Posting.Amount = 100, Value = 0, Credit = Assets_Bank,
              Debit = Assets_Prepaid, Commodity = USD, Lot = None\<rparr>]"
proof -
  let ?a = "ex_accrual Assets_Bank Expenses_Rent Assets_Prepaid 100"
  let ?p = "NewPosting Assets_Bank Expenses_Rent USD 100"
  have posts: "Transaction.Postings (Accrual.Transaction ?a) = ?p # []"
    by (simp add: ex_accrual_def)
  have ser: "ex_months (T0 ?a) (T1 ?a) (Accrual.Period ?a) = 738884 # [738915, 738944, 738975]"
    by (simp add: ex_months_def)
  have ne: "[738915, 738944, 738975 :: time] \<noteq> []"
    by simp
  have p: "?p = \<lparr>Posting.Amount = 100, Value = 0, Credit = Assets_Bank, Debit = Expenses_Rent,
      Commodity = USD, Lot = None\<rparr>"
    by (simp add: ex_NewPosting)
  have types: "isAL (Credit ?p) \<and> isIE (Debit ?p)"
    by (simp add: p ex_account_types)
  from Expand_legs [where series = ex_months and a = ?a, OF posts ser ne]
  obtain q r txs
    where qr: "QuoRem (Posting.Amount ?p) (NewFromInt (int (length [738915, 738944, 738975 :: time]))) 1
        = Some (q, r)"
      and ex: "Expand ex_months ?a = Some txs"
      and legs: "isAL (Credit ?p) \<and> isIE (Debit ?p) \<longrightarrow>
         postings_of txs
           = leg (Accrual.Account ?a) (Debit ?p) (Posting.Commodity ?p)
               (multi_amounts q r (length [738915, 738944, 738975 :: time]))
             @ leg (Credit ?p) (Accrual.Account ?a) (Posting.Commodity ?p) [Posting.Amount ?p]"
    by blast
  from qr have q: "q = 333 / 10" and r: "r = 1 / 10"
    by (simp_all add: p ex_QuoRem)
  have S: "Accrual.Account ?a = Assets_Prepaid"
    by (simp add: ex_accrual_def)
  from legs types have "postings_of txs
      = leg Assets_Prepaid Expenses_Rent USD (multi_amounts (333 / 10) (1 / 10) (Suc (Suc (Suc 0))))
        @ leg Assets_Bank Assets_Prepaid USD [100]"
    by (simp add: p S q r)
  then have "postings_of txs
     = [\<lparr>Posting.Amount = 167 / 5, Value = 0, Credit = Assets_Prepaid,
              Debit = Expenses_Rent, Commodity = USD, Lot = None\<rparr>,
             \<lparr>Posting.Amount = 333 / 10, Value = 0, Credit = Assets_Prepaid,
              Debit = Expenses_Rent, Commodity = USD, Lot = None\<rparr>,
             \<lparr>Posting.Amount = 333 / 10, Value = 0, Credit = Assets_Prepaid,
              Debit = Expenses_Rent, Commodity = USD, Lot = None\<rparr>,
             \<lparr>Posting.Amount = 100, Value = 0, Credit = Assets_Bank,
              Debit = Assets_Prepaid, Commodity = USD, Lot = None\<rparr>]"
    by (simp add: leg_def ex_multi_amounts ex_accounts_distinct ex_NewPosting)
  with ex show ?thesis by simp
qed

end
